theory Spec2Isabelle
  imports Main
begin

section \<open>JavaScript values\<close>

text \<open>
  The server relays JSON between the browser and the vendors, and its control flow
  depends on JavaScript's coercions (truthiness in \<^verbatim>\<open>!apiAccessToken\<close> and
  \<^verbatim>\<open>a || b\<close>, numeric coercion in \<^verbatim>\<open>data.expires_in * 1000\<close>, string coercion in
  template literals). Values are therefore modelled as JavaScript has them, within these
  bounds: a number is an integer (\<^verbatim>\<open>Date.now()\<close> and OAuth's \<^verbatim>\<open>expires_in\<close> are) or
  \<^verbatim>\<open>NaN\<close>; the model agrees with the engine's doubles on integers of magnitude up to
  \<open>2^53\<close> (\<open>safe_int\<close>), beyond which the engine rounds and the model does not, and a
  statement below that gives the value of a sum or a product assumes that range; a
  string is a list of code units below 256; an object is the list of its fields, each
  name once, as \<^verbatim>\<open>JSON.parse\<close> or an object literal builds it, so no field is callable.
\<close>

datatype jsval =
    JUndefined
  | JNull
  | JBool bool
  | JNum int
  | JNaN
  | JStr string
  | JArr "jsval list"
  | JObj "(string \<times> jsval) list"

definition safe_int :: "int \<Rightarrow> bool" where
  "safe_int n = (- 9007199254740992 \<le> n \<and> n \<le> 9007199254740992)"

text \<open>Thrown values. \<open>message\<close> is what \<^verbatim>\<open>error.message\<close> reads.\<close>

datatype js_error =
    HttpError int string      \<comment> \<open>\<^verbatim>\<open>new Error(`HTTP ${res.statusCode}: ${data}`)\<close> of makeRequest\<close>
  | NetError string           \<comment> \<open>the error of the request's \<^verbatim>\<open>'error'\<close> event\<close>
  | TypeError string          \<comment> \<open>thrown by the engine or by Node's \<^verbatim>\<open>http\<close> module\<close>
  | PlainError string         \<comment> \<open>\<^verbatim>\<open>new Error(msg)\<close>\<close>

definition digit_char :: "nat \<Rightarrow> char" where
  "digit_char d = char_of (48 + d)"

fun show_nat :: "nat \<Rightarrow> string" where
  "show_nat n = (if n < 10 then [digit_char n] else show_nat (n div 10) @ [digit_char (n mod 10)])"

declare show_nat.simps [simp del]

definition show_int :: "int \<Rightarrow> string" where
  "show_int i = (if i < 0 then CHR ''-'' # show_nat (nat (- i)) else show_nat (nat i))"

fun message :: "js_error \<Rightarrow> string" where
  "message (HttpError st data) = ''HTTP '' @ show_int st @ '': '' @ data"
| "message (NetError m) = m"
| "message (TypeError m) = m"
| "message (PlainError m) = m"

text \<open>Truthiness: what \<^verbatim>\<open>!v\<close>, \<^verbatim>\<open>v || w\<close> and \<^verbatim>\<open>if (v)\<close> test.\<close>

fun truthy :: "jsval \<Rightarrow> bool" where
  "truthy JUndefined = False"
| "truthy JNull = False"
| "truthy (JBool b) = b"
| "truthy (JNum n) = (n \<noteq> 0)"
| "truthy JNaN = False"
| "truthy (JStr s) = (s \<noteq> [])"
| "truthy (JArr xs) = True"
| "truthy (JObj fs) = True"

definition js_or :: "jsval \<Rightarrow> jsval \<Rightarrow> jsval" where
  "js_or a b = (if truthy a then a else b)"

text \<open>
  Property read \<^verbatim>\<open>v.name\<close>, for the names the code reads (\<^verbatim>\<open>access_token\<close>,
  \<^verbatim>\<open>expires_in\<close>, \<^verbatim>\<open>customer_id\<close>, ...), none of which is a property of a built-in
  prototype: an object gives its field or \<^verbatim>\<open>undefined\<close>, a primitive or an array gives
  \<^verbatim>\<open>undefined\<close>, and \<^verbatim>\<open>null\<close> and \<^verbatim>\<open>undefined\<close> throw a TypeError. The messages of the
  engine's own TypeErrors are in V8's wording.
\<close>

fun get_prop :: "jsval \<Rightarrow> string \<Rightarrow> js_error + jsval" where
  "get_prop JUndefined k = Inl (TypeError (''Cannot read properties of undefined (reading '' @ [CHR 0x27] @ k @ [CHR 0x27] @ '')''))"
| "get_prop JNull k = Inl (TypeError (''Cannot read properties of null (reading '' @ [CHR 0x27] @ k @ [CHR 0x27] @ '')''))"
| "get_prop (JObj fs) k = (case map_of fs k of Some v \<Rightarrow> Inr v | None \<Rightarrow> Inr JUndefined)"
| "get_prop v k = Inr JUndefined"

text \<open>
  A destructuring \<^verbatim>\<open>const { name, ... } = JSON.parse(body)\<close> reads the same way, one
  name after the other, and throws with its own message.
\<close>

fun destructure :: "jsval \<Rightarrow> string \<Rightarrow> js_error + jsval" where
  "destructure JUndefined k =
     Inl (TypeError (''Cannot destructure property '' @ [CHR 0x27] @ k @ [CHR 0x27]
                     @ '' of '' @ [CHR 0x27] @ ''JSON.parse(...)'' @ [CHR 0x27]
                     @ '' as it is undefined.''))"
| "destructure JNull k =
     Inl (TypeError (''Cannot destructure property '' @ [CHR 0x27] @ k @ [CHR 0x27]
                     @ '' of '' @ [CHR 0x27] @ ''JSON.parse(...)'' @ [CHR 0x27]
                     @ '' as it is null.''))"
| "destructure v k = get_prop v k"

text \<open>
  A \<^verbatim>\<open>console.log(..., data.name)\<close> between the response and the \<^verbatim>\<open>return data\<close>: the
  read throws when \<open>data\<close> is \<^verbatim>\<open>null\<close>, else \<open>data\<close> is returned.
\<close>

definition after_logging :: "jsval \<Rightarrow> string \<Rightarrow> js_error + jsval" where
  "after_logging data k = (case get_prop data k of Inl e \<Rightarrow> Inl e | Inr _ \<Rightarrow> Inr data)"

subsection \<open>Strings\<close>

text \<open>White space and line terminators, as \<^verbatim>\<open>trim\<close> removes them.\<close>

definition is_space :: "char \<Rightarrow> bool" where
  "is_space c =
     (c \<in> set [CHR '' '', CHR 0x09, CHR 0x0A, CHR 0x0B, CHR 0x0C, CHR 0x0D, CHR 0xA0])"

definition js_trim :: "string \<Rightarrow> string" where
  "js_trim s = rev (dropWhile is_space (rev (dropWhile is_space s)))"

fun js_includes :: "string \<Rightarrow> string \<Rightarrow> bool" where
  "js_includes [] sub = (sub = [])"
| "js_includes (c # cs) sub = (take (length sub) (c # cs) = sub \<or> js_includes cs sub)"

fun join_comma :: "string list \<Rightarrow> string" where
  "join_comma [] = []"
| "join_comma [s] = s"
| "join_comma (s # t # ss) = s @ '','' @ join_comma (t # ss)"

text \<open>
  Coercion to a primitive. An object is converted through its \<^verbatim>\<open>toString\<close> and
  \<^verbatim>\<open>valueOf\<close>. An object with a field of its own named \<^verbatim>\<open>toString\<close> has no callable
  \<^verbatim>\<open>toString\<close>, and the inherited \<^verbatim>\<open>valueOf\<close> gives back the object, so for it both the
  string and the numeric coercion throw a TypeError. Every other object converts to
  \<^verbatim>\<open>[object Object]\<close>. An array converts by joining its converted elements, so it throws
  when one of them does.
\<close>

fun coercible :: "jsval \<Rightarrow> bool" where
  "coercible (JObj fs) = (map_of fs ''toString'' = None)"
| "coercible (JArr xs) = (\<forall>x \<in> set xs. coercible x)"
| "coercible v = True"

definition cannot_convert :: js_error where
  "cannot_convert = TypeError ''Cannot convert object to primitive value''"

text \<open>
  The text of a value whose coercion does not throw. Integers are printed in full, as the
  engine prints those of magnitude up to \<open>2^53\<close>.
\<close>

fun to_string :: "jsval \<Rightarrow> string" where
  "to_string JUndefined = ''undefined''"
| "to_string JNull = ''null''"
| "to_string (JBool b) = (if b then ''true'' else ''false'')"
| "to_string (JNum n) = show_int n"
| "to_string JNaN = ''NaN''"
| "to_string (JStr s) = s"
| "to_string (JArr xs) =
     join_comma (map (\<lambda>x. if x = JUndefined \<or> x = JNull then [] else to_string x) xs)"
| "to_string (JObj fs) = ''[object Object]''"

text \<open>String coercion, as a template literal \<^verbatim>\<open>`${v}`\<close> and \<^verbatim>\<open>new Error(v)\<close> perform it.\<close>

definition template :: "jsval \<Rightarrow> js_error + string" where
  "template v = (if coercible v then Inr (to_string v) else Inl cannot_convert)"

text \<open>
  The number of a value whose coercion does not throw. A string is read as a decimal
  integer literal with an optional sign (surrounding white space ignored, the empty
  string is 0); every other string is \<^verbatim>\<open>NaN\<close> here (the engine also reads fractions,
  exponents, other radices and \<^verbatim>\<open>Infinity\<close>, which mostly denote numbers outside this
  integer model).
\<close>

definition is_digit :: "char \<Rightarrow> bool" where
  "is_digit c = ((48::nat) \<le> of_char c \<and> of_char c \<le> (57::nat))"

definition dec_value :: "string \<Rightarrow> int" where
  "dec_value ds = foldl (\<lambda>a c. 10 * a + (int (of_char c) - 48)) 0 ds"

definition digits_to_number :: "string \<Rightarrow> jsval" where
  "digits_to_number ds = (if ds \<noteq> [] \<and> list_all is_digit ds then JNum (dec_value ds) else JNaN)"

definition str_to_number :: "string \<Rightarrow> jsval" where
  "str_to_number s =
     (case js_trim s of
        [] \<Rightarrow> JNum 0
      | c # cs \<Rightarrow>
          if c = CHR ''-'' then (case digits_to_number cs of JNum n \<Rightarrow> JNum (- n) | _ \<Rightarrow> JNaN)
          else if c = CHR ''+'' then digits_to_number cs
          else digits_to_number (c # cs))"

fun to_number :: "jsval \<Rightarrow> jsval" where
  "to_number JUndefined = JNaN"
| "to_number JNull = JNum 0"
| "to_number (JBool b) = JNum (if b then 1 else 0)"
| "to_number (JNum n) = JNum n"
| "to_number JNaN = JNaN"
| "to_number (JStr s) = str_to_number s"
| "to_number (JArr xs) = str_to_number (to_string (JArr xs))"
| "to_number (JObj fs) = JNaN"

text \<open>Numeric coercion, as \<^verbatim>\<open>*\<close> and \<^verbatim>\<open>>=\<close> perform it on an operand.\<close>

definition numeric :: "jsval \<Rightarrow> js_error + jsval" where
  "numeric v = (if coercible v then Inr (to_number v) else Inl cannot_convert)"

text \<open>Product and sum of two numbers, exact on integers.\<close>

definition num_mul :: "jsval \<Rightarrow> jsval \<Rightarrow> jsval" where
  "num_mul a b = (case (a, b) of (JNum x, JNum y) \<Rightarrow> JNum (x * y) | _ \<Rightarrow> JNaN)"

definition num_add :: "jsval \<Rightarrow> jsval \<Rightarrow> jsval" where
  "num_add a b = (case (a, b) of (JNum x, JNum y) \<Rightarrow> JNum (x + y) | _ \<Rightarrow> JNaN)"


text \<open>\<^verbatim>\<open>a * b\<close>: the operands are coerced left to right, and either coercion may throw.\<close>

definition js_mul :: "jsval \<Rightarrow> jsval \<Rightarrow> js_error + jsval" where
  "js_mul a b =
     (case numeric a of
        Inl e \<Rightarrow> Inl e
      | Inr x \<Rightarrow> (case numeric b of Inl e \<Rightarrow> Inl e | Inr y \<Rightarrow> Inr (num_mul x y)))"

text \<open>
  \<^verbatim>\<open>now >= v\<close> for a number \<open>now\<close>: it throws when the coercion of \<open>v\<close> does, and is
  false when \<open>v\<close> coerces to \<^verbatim>\<open>NaN\<close>.
\<close>

definition js_ge :: "int \<Rightarrow> jsval \<Rightarrow> js_error + bool" where
  "js_ge now v =
     (case numeric v of
        Inl e \<Rightarrow> Inl e
      | Inr (JNum e) \<Rightarrow> Inr (now \<ge> e)
      | Inr _ \<Rightarrow> Inr False)"

text \<open>
  \<^verbatim>\<open>JSON.parse(JSON.stringify(v))\<close>: what the receiver of a serialised value reads.
  Fields holding \<^verbatim>\<open>undefined\<close> are dropped, \<^verbatim>\<open>NaN\<close> and \<^verbatim>\<open>undefined\<close> array elements
  become \<^verbatim>\<open>null\<close>.
\<close>

fun json_wire :: "jsval \<Rightarrow> jsval" where
  "json_wire JNaN = JNull"
| "json_wire (JArr xs) = JArr (map (\<lambda>x. if x = JUndefined then JNull else json_wire x) xs)"
| "json_wire (JObj fs) =
     JObj (map (\<lambda>(k, x). (k, json_wire x)) (filter (\<lambda>(k, x). x \<noteq> JUndefined) fs))"
| "json_wire v = v"


section \<open>The server's environment and state\<close>

text \<open>
  \<^verbatim>\<open>LEAN_CONFIG\<close> and \<^verbatim>\<open>PLAID_CONFIG\<close>, read from the environment at start-up. The Lean
  credentials are checked to be present there (the process exits otherwise), the Plaid
  ones may be \<^verbatim>\<open>undefined\<close>. The URLs are taken to be well formed, so that
  \<^verbatim>\<open>new URL(url)\<close> in makeRequest does not throw.
\<close>

record config =
  lean_client_id :: string
  lean_client_secret :: string
  lean_auth_url :: string
  lean_api_url :: string
  plaid_client_id :: jsval
  plaid_secret :: jsval
  plaid_api_url :: string

text \<open>
  An outbound request, as the vendor receives it: the form fields of a
  \<^verbatim>\<open>URLSearchParams\<close> body, or the value a JSON body parses to. The
  \<^verbatim>\<open>Content-Length\<close> header (the byte length of the serialised body) is not modelled.
\<close>

datatype req_body = NoBody | FormBody "(string \<times> string) list" | JsonBody jsval

record http_request =
  req_method :: string
  req_url :: string
  req_headers :: "(string \<times> string) list"
  req_body :: req_body

text \<open>
  What comes back: a response with its status code, its body text and what
  \<^verbatim>\<open>JSON.parse\<close> makes of that text (\<open>None\<close> when it throws), or a transport error.
  The vendor is any function of the requests sent so far and the current request; it
  also fixes how many milliseconds pass until the answer is in.
\<close>

datatype outcome = Responded int string "jsval option" | Failed string

type_synonym vendor = "http_request list \<Rightarrow> http_request \<Rightarrow> nat \<times> outcome"

text \<open>
  The process-wide state: the two cache variables \<^verbatim>\<open>apiAccessToken\<close> and
  \<^verbatim>\<open>apiTokenExpiry\<close> (both \<^verbatim>\<open>null\<close> at start), the clock \<^verbatim>\<open>Date.now()\<close> reads, and
  the requests sent so far.
\<close>

record world =
  apiAccessToken :: jsval
  apiTokenExpiry :: jsval
  clock :: int
  sent :: "http_request list"

definition initial_world :: "int \<Rightarrow> world" where
  "initial_world t = \<lparr>apiAccessToken = JNull, apiTokenExpiry = JNull, clock = t, sent = []\<rparr>"

type_synonym 'a result = "(js_error + 'a) \<times> world"

section \<open>server.js: the Lean functions\<close>

text \<open>
  \<^verbatim>\<open>http.request\<close> checks every header value when the request object is built, and throws
  on a character other than a tab, a printable ASCII character or a code unit from 128
  (\<^verbatim>\<open>ERR_INVALID_CHAR\<close>). The throw is inside the promise's executor, so the promise
  rejects and nothing is sent.
\<close>

definition valid_header_char :: "char \<Rightarrow> bool" where
  "valid_header_char ch =
     ((of_char ch :: nat) = 9 \<or> (32 \<le> (of_char ch :: nat) \<and> (of_char ch :: nat) \<le> 126)
      \<or> 128 \<le> (of_char ch :: nat))"

definition invalid_header :: "(string \<times> string) list \<Rightarrow> string option" where
  "invalid_header hs =
     (case filter (\<lambda>(k, x). \<not> list_all valid_header_char x) hs of
        [] \<Rightarrow> None
      | (k, x) # _ \<Rightarrow> Some k)"

definition invalid_char :: "string \<Rightarrow> js_error" where
  "invalid_char k =
     TypeError (''Invalid character in header content ['' @ [CHR 0x22] @ k @ [CHR 0x22] @ '']'')"

text \<open>
  \<^verbatim>\<open>makeRequest\<close>: how the promise settles once the response has ended (a 2xx status
  resolves, with a substitute object for an empty body and the raw text where
  \<^verbatim>\<open>JSON.parse\<close> throws; any other status rejects), or on the request's error event.
  The log records the URL as it is passed to \<^verbatim>\<open>makeRequest\<close>.
\<close>

definition settle :: "outcome \<Rightarrow> js_error + jsval" where
  "settle out =
     (case out of
        Failed m \<Rightarrow> Inl (NetError m)
      | Responded st data parsed \<Rightarrow>
          if 200 \<le> st \<and> st < 300 then
            (if data = [] \<or> js_trim data = [] then
               Inr (JObj [(''success'', JBool True), (''status'', JNum st)])
             else (case parsed of
                     Some j \<Rightarrow> Inr j
                   | None \<Rightarrow> Inr (JStr data)))
          else Inl (HttpError st data))"

definition makeRequest :: "vendor \<Rightarrow> http_request \<Rightarrow> world \<Rightarrow> jsval result" where
  "makeRequest v r w =
     (case invalid_header (req_headers r) of
        Some k \<Rightarrow> (Inl (invalid_char k), w)
      | None \<Rightarrow>
          (case v (sent w) r of
             (d, out) \<Rightarrow> (settle out, w\<lparr>clock := clock w + int d, sent := sent w @ [r]\<rparr>)))"

definition token_request :: "config \<Rightarrow> string \<Rightarrow> http_request" where
  "token_request c scope =
     \<lparr>req_method = ''POST'',
      req_url = lean_auth_url c,
      req_headers = [(''Content-Type'', ''application/x-www-form-urlencoded'')],
      req_body = FormBody [(''client_id'', lean_client_id c),
                           (''client_secret'', lean_client_secret c),
                           (''grant_type'', ''client_credentials''),
                           (''scope'', scope)]\<rparr>"

text \<open>
  Step 1. The two assignments to the cache follow the response, one after the other:
  a property read or a multiplication that throws leaves what was assigned before it.
\<close>

definition getApiAccessToken :: "config \<Rightarrow> vendor \<Rightarrow> world \<Rightarrow> jsval result" where
  "getApiAccessToken c v w =
     (case makeRequest v (token_request c ''api'') w of
        (Inl e, w1) \<Rightarrow> (Inl e, w1)
      | (Inr data, w1) \<Rightarrow>
          (case get_prop data ''access_token'' of
             Inl e \<Rightarrow> (Inl e, w1)
           | Inr tok \<Rightarrow>
               let w2 = w1\<lparr>apiAccessToken := tok\<rparr> in
               (case get_prop data ''expires_in'' of
                  Inl e \<Rightarrow> (Inl e, w2)
                | Inr ex \<Rightarrow>
                    (case js_mul ex (JNum 1000) of
                       Inl e \<Rightarrow> (Inl e, w2)
                     | Inr ms \<Rightarrow>
                         (Inr tok, w2\<lparr>apiTokenExpiry := num_add (JNum (clock w2)) ms\<rparr>)))))"

text \<open>
  The guard \<^verbatim>\<open>if (!apiAccessToken || Date.now() >= apiTokenExpiry)\<close> that
  \<^verbatim>\<open>createCustomer\<close> and the five proxy functions start with.
\<close>

definition token_needed :: "world \<Rightarrow> js_error + bool" where
  "token_needed w =
     (if \<not> truthy (apiAccessToken w) then Inr True else js_ge (clock w) (apiTokenExpiry w))"

definition ensure_token :: "config \<Rightarrow> vendor \<Rightarrow> world \<Rightarrow> jsval result" where
  "ensure_token c v w =
     (case token_needed w of
        Inl e \<Rightarrow> (Inl e, w)
      | Inr True \<Rightarrow> getApiAccessToken c v w
      | Inr False \<Rightarrow> (Inr JUndefined, w))"

definition customer_request :: "config \<Rightarrow> jsval \<Rightarrow> jsval \<Rightarrow> http_request" where
  "customer_request c token appUserId =
     \<lparr>req_method = ''POST'',
      req_url = lean_api_url c @ ''/customers/v1'',
      req_headers = [(''Authorization'', ''Bearer '' @ to_string token),
                     (''Content-Type'', ''application/json'')],
      req_body = JsonBody (json_wire (JObj [(''app_user_id'', appUserId)]))\<rparr>"

text \<open>
  Step 2. The bearer token is a template literal, which throws for a token that cannot
  be coerced; the log line before the return reads \<^verbatim>\<open>data.customer_id\<close>.
\<close>

definition createCustomer :: "config \<Rightarrow> vendor \<Rightarrow> jsval \<Rightarrow> world \<Rightarrow> jsval result" where
  "createCustomer c v appUserId w =
     (case ensure_token c v w of
        (Inl e, w1) \<Rightarrow> (Inl e, w1)
      | (Inr _, w1) \<Rightarrow>
          if \<not> coercible (apiAccessToken w1) then (Inl cannot_convert, w1)
          else
            (case makeRequest v (customer_request c (apiAccessToken w1) appUserId) w1 of
               (Inl e, w2) \<Rightarrow> (Inl e, w2)
             | (Inr data, w2) \<Rightarrow> (after_logging data ''customer_id'', w2)))"

text \<open>Step 3. The scope is a template literal, built before the request.\<close>

definition getCustomerAccessToken :: "config \<Rightarrow> vendor \<Rightarrow> jsval \<Rightarrow> world \<Rightarrow> jsval result" where
  "getCustomerAccessToken c v customerId w =
     (case template customerId of
        Inl e \<Rightarrow> (Inl e, w)
      | Inr s \<Rightarrow> makeRequest v (token_request c (''customer.'' @ s)) w)"

definition failure :: "js_error \<Rightarrow> jsval" where
  "failure e = JObj [(''success'', JBool False), (''error'', JStr (message e))]"

text \<open>
  The 3-step flow. The whole body is inside \<^verbatim>\<open>try\<close>, so the function always returns a
  value; the property reads that build the return value are in the order the object
  literal evaluates them.
\<close>

definition initializeCustomer_result :: "jsval \<Rightarrow> jsval \<Rightarrow> jsval \<Rightarrow> jsval" where
  "initializeCustomer_result customer customerId customerToken =
     (case get_prop customer ''app_user_id'' of
        Inl e \<Rightarrow> failure e
      | Inr app_user \<Rightarrow>
     (case get_prop customerToken ''access_token'' of
        Inl e \<Rightarrow> failure e
      | Inr tok \<Rightarrow>
     (case get_prop customerToken ''expires_in'' of
        Inl e \<Rightarrow> failure e
      | Inr ex \<Rightarrow>
     (case get_prop customerToken ''scope'' of
        Inl e \<Rightarrow> failure e
      | Inr sc \<Rightarrow>
          JObj [(''success'', JBool True), (''customer_id'', customerId),
                (''app_user_id'', app_user), (''access_token'', tok),
                (''token_expires_in'', ex), (''token_scope'', sc)]))))"

definition customer_id_of :: "jsval \<Rightarrow> js_error + jsval" where
  "customer_id_of customer =
     (case get_prop customer ''customer_id'' of
        Inl e \<Rightarrow> Inl e
      | Inr cid \<Rightarrow> if truthy cid then Inr cid else get_prop customer ''id'')"

definition initializeCustomer :: "config \<Rightarrow> vendor \<Rightarrow> jsval \<Rightarrow> world \<Rightarrow> jsval \<times> world" where
  "initializeCustomer c v appUserId w =
     (case getApiAccessToken c v w of
        (Inl e, w1) \<Rightarrow> (failure e, w1)
      | (Inr _, w1) \<Rightarrow>
     (case createCustomer c v appUserId w1 of
        (Inl e, w2) \<Rightarrow> (failure e, w2)
      | (Inr customer, w2) \<Rightarrow>
     (case customer_id_of customer of
        Inl e \<Rightarrow> (failure e, w2)
      | Inr customerId \<Rightarrow>
     (case getCustomerAccessToken c v customerId w2 of
        (Inl e, w3) \<Rightarrow> (failure e, w3)
      | (Inr customerToken, w3) \<Rightarrow>
          (initializeCustomer_result customer customerId customerToken, w3)))))"

text \<open>The 2-step flow for an existing customer.\<close>

definition getTokensForCustomer_result :: "jsval \<Rightarrow> jsval \<Rightarrow> jsval" where
  "getTokensForCustomer_result customerId customerToken =
     (case get_prop customerToken ''access_token'' of
        Inl e \<Rightarrow> failure e
      | Inr tok \<Rightarrow>
     (case get_prop customerToken ''expires_in'' of
        Inl e \<Rightarrow> failure e
      | Inr ex \<Rightarrow>
     (case get_prop customerToken ''scope'' of
        Inl e \<Rightarrow> failure e
      | Inr sc \<Rightarrow>
          JObj [(''success'', JBool True), (''customer_id'', customerId),
                (''access_token'', tok), (''token_expires_in'', ex),
                (''token_scope'', sc)])))"

definition getTokensForCustomer :: "config \<Rightarrow> vendor \<Rightarrow> jsval \<Rightarrow> world \<Rightarrow> jsval \<times> world" where
  "getTokensForCustomer c v customerId w =
     (case getApiAccessToken c v w of
        (Inl e, w1) \<Rightarrow> (failure e, w1)
      | (Inr _, w1) \<Rightarrow>
     (case getCustomerAccessToken c v customerId w1 of
        (Inl e, w2) \<Rightarrow> (failure e, w2)
      | (Inr customerToken, w2) \<Rightarrow>
          (getTokensForCustomer_result customerId customerToken, w2)))"


section \<open>server.js: the Lean proxy functions\<close>

text \<open>
  A request without a body that carries the cached token: \<^verbatim>\<open>Authorization\<close> first, then
  the function's other headers.
\<close>

definition bearer_request ::
  "string \<Rightarrow> string \<Rightarrow> jsval \<Rightarrow> (string \<times> string) list \<Rightarrow> http_request" where
  "bearer_request m url token others =
     \<lparr>req_method = m,
      req_url = url,
      req_headers = (''Authorization'', ''Bearer '' @ to_string token) # others,
      req_body = NoBody\<rparr>"

definition accept_json :: "(string \<times> string) list" where
  "accept_json = [(''Accept'', ''application/json'')]"

text \<open>
  Each proxy function runs the guard, builds its URL as a template literal (which throws
  for an argument that cannot be coerced), and sends one request.
\<close>

definition getAccounts :: "config \<Rightarrow> vendor \<Rightarrow> jsval \<Rightarrow> world \<Rightarrow> jsval result" where
  "getAccounts c v entityId w =
     (case ensure_token c v w of
        (Inl e, w1) \<Rightarrow> (Inl e, w1)
      | (Inr _, w1) \<Rightarrow>
          if \<not> coercible entityId then (Inl cannot_convert, w1)
          else if \<not> coercible (apiAccessToken w1) then (Inl cannot_convert, w1)
          else
            (case makeRequest v
                    (bearer_request ''GET''
                       (lean_api_url c @ ''/data/v2/accounts?entity_id='' @ to_string entityId
                        @ ''&async=false&force_refresh=false&verbose=false'')
                       (apiAccessToken w1) accept_json) w1 of
               (Inl e, w2) \<Rightarrow> (Inl e, w2)
             | (Inr data, w2) \<Rightarrow> (after_logging data ''accounts'', w2)))"

definition getAccountBalances ::
  "config \<Rightarrow> vendor \<Rightarrow> jsval \<Rightarrow> jsval \<Rightarrow> world \<Rightarrow> jsval result" where
  "getAccountBalances c v accountId entityId w =
     (case ensure_token c v w of
        (Inl e, w1) \<Rightarrow> (Inl e, w1)
      | (Inr _, w1) \<Rightarrow>
          if \<not> coercible accountId \<or> \<not> coercible entityId then (Inl cannot_convert, w1)
          else if \<not> coercible (apiAccessToken w1) then (Inl cannot_convert, w1)
          else
            makeRequest v
              (bearer_request ''GET''
                 (lean_api_url c @ ''/data/v2/accounts/'' @ to_string accountId
                  @ ''/balances?entity_id='' @ to_string entityId
                  @ ''&async=false&page=0&size=50&verbose=false&force_refresh=true'')
                 (apiAccessToken w1) accept_json) w1)"

definition getAccountTransactions ::
  "config \<Rightarrow> vendor \<Rightarrow> jsval \<Rightarrow> jsval \<Rightarrow> world \<Rightarrow> jsval result" where
  "getAccountTransactions c v accountId entityId w =
     (case ensure_token c v w of
        (Inl e, w1) \<Rightarrow> (Inl e, w1)
      | (Inr _, w1) \<Rightarrow>
          if \<not> coercible accountId \<or> \<not> coercible entityId then (Inl cannot_convert, w1)
          else if \<not> coercible (apiAccessToken w1) then (Inl cannot_convert, w1)
          else
            makeRequest v
              (bearer_request ''GET''
                 (lean_api_url c @ ''/data/v2/accounts/'' @ to_string accountId
                  @ ''/transactions?entity_id='' @ to_string entityId
                  @ ''&async=false&page=0&size=50&verbose=false'')
                 (apiAccessToken w1) accept_json) w1)"

definition listConsents ::
  "config \<Rightarrow> vendor \<Rightarrow> jsval \<Rightarrow> jsval \<Rightarrow> world \<Rightarrow> jsval result" where
  "listConsents c v customerId entityId w =
     (case ensure_token c v w of
        (Inl e, w1) \<Rightarrow> (Inl e, w1)
      | (Inr _, w1) \<Rightarrow>
          if \<not> coercible customerId \<or> \<not> coercible entityId then (Inl cannot_convert, w1)
          else if \<not> coercible (apiAccessToken w1) then (Inl cannot_convert, w1)
          else
            (case makeRequest v
                    (bearer_request ''GET''
                       (lean_api_url c @ ''/customers/v1/'' @ to_string customerId
                        @ ''/entities/'' @ to_string entityId @ ''/consents'')
                       (apiAccessToken w1) accept_json) w1 of
               (Inl e, w2) \<Rightarrow> (Inl e, w2)
             | (Inr data, w2) \<Rightarrow> (after_logging data ''data'', w2)))"

text \<open>The reason defaults to \<^verbatim>\<open>USER_REQUESTED\<close> when the argument is \<^verbatim>\<open>undefined\<close>.\<close>

definition deleteConsent ::
  "config \<Rightarrow> vendor \<Rightarrow> jsval \<Rightarrow> jsval \<Rightarrow> jsval \<Rightarrow> jsval \<Rightarrow> world \<Rightarrow> jsval result" where
  "deleteConsent c v customerId entityId consentId reason_arg w =
     (let reason = (if reason_arg = JUndefined then JStr ''USER_REQUESTED'' else reason_arg)
      in (case ensure_token c v w of
            (Inl e, w1) \<Rightarrow> (Inl e, w1)
          | (Inr _, w1) \<Rightarrow>
              if \<not> coercible customerId \<or> \<not> coercible entityId \<or> \<not> coercible consentId
                 \<or> \<not> coercible reason
              then (Inl cannot_convert, w1)
              else if \<not> coercible (apiAccessToken w1) then (Inl cannot_convert, w1)
              else
                makeRequest v
                  (bearer_request ''DELETE''
                     (lean_api_url c @ ''/customers/v1/'' @ to_string customerId
                      @ ''/entities/'' @ to_string entityId @ ''/consent/'' @ to_string consentId
                      @ ''?reason='' @ to_string reason)
                     (apiAccessToken w1)
                     (accept_json @ [(''Content-Type'', ''application/json'')])) w1))"

text \<open>
  \<^verbatim>\<open>getLeanBanks\<close> has no guard: it calls \<^verbatim>\<open>getApiAccessToken\<close> first, and reads
  \<^verbatim>\<open>access_token\<close> of what that returns (the token itself) for its bearer token.
\<close>

definition getLeanBanks :: "config \<Rightarrow> vendor \<Rightarrow> world \<Rightarrow> jsval result" where
  "getLeanBanks c v w =
     (case getApiAccessToken c v w of
        (Inl e, w1) \<Rightarrow> (Inl e, w1)
      | (Inr tokenData, w1) \<Rightarrow>
          (case get_prop tokenData ''access_token'' of
             Inl e \<Rightarrow> (Inl e, w1)
           | Inr token \<Rightarrow>
               if \<not> coercible token then (Inl cannot_convert, w1)
               else
                 (case makeRequest v
                         (bearer_request ''GET'' (lean_api_url c @ ''/entities/v1'') token
                            [(''Content-Type'', ''application/json''),
                             (''lean-app-token'', lean_client_id c)]) w1 of
                    (Inl e, w2) \<Rightarrow> (Inl e, w2)
                  | (Inr data, w2) \<Rightarrow> (after_logging data ''entities'', w2))))"

section \<open>server.js: the Plaid functions\<close>

definition plaid_headers :: "(string \<times> string) list" where
  "plaid_headers = [(''Content-Type'', ''application/json'')]"

definition link_token_request :: "config \<Rightarrow> jsval \<Rightarrow> jsval \<Rightarrow> http_request" where
  "link_token_request c userId institutionId =
     \<lparr>req_method = ''POST'',
      req_url = plaid_api_url c @ ''/link/token/create'',
      req_headers = plaid_headers,
      req_body = JsonBody (json_wire (JObj
        ([(''client_id'', plaid_client_id c),
          (''secret'', plaid_secret c),
          (''user'', JObj [(''client_user_id'', userId)]),
          (''client_name'', JStr ''Lean SDK Integration App''),
          (''products'', JArr [JStr ''auth'', JStr ''transactions'']),
          (''country_codes'', JArr [JStr ''US'']),
          (''language'', JStr ''en'')]
         @ (if truthy institutionId then [(''institution_id'', institutionId)] else []))))\<rparr>"

definition createPlaidLinkToken :: "config \<Rightarrow> vendor \<Rightarrow> jsval \<Rightarrow> jsval \<Rightarrow> world \<Rightarrow> jsval result" where
  "createPlaidLinkToken c v userId institutionId w =
     makeRequest v (link_token_request c userId institutionId) w"

definition transactions_request :: "config \<Rightarrow> jsval \<Rightarrow> jsval \<Rightarrow> jsval \<Rightarrow> http_request" where
  "transactions_request c accessToken startDate endDate =
     \<lparr>req_method = ''POST'',
      req_url = plaid_api_url c @ ''/transactions/get'',
      req_headers = plaid_headers,
      req_body = JsonBody (json_wire (JObj
        [(''client_id'', plaid_client_id c),
         (''secret'', plaid_secret c),
         (''access_token'', accessToken),
         (''start_date'', startDate),
         (''end_date'', endDate)]))\<rparr>"

definition getPlaidTransactions ::
  "config \<Rightarrow> vendor \<Rightarrow> jsval \<Rightarrow> jsval \<Rightarrow> jsval \<Rightarrow> world \<Rightarrow> jsval result" where
  "getPlaidTransactions c v accessToken startDate endDate w =
     (case makeRequest v (transactions_request c accessToken startDate endDate) w of
        (Inl e, w1) \<Rightarrow> (Inl e, w1)
      | (Inr data, w1) \<Rightarrow> (after_logging data ''transactions'', w1))"

section \<open>Dates\<close>

text \<open>
  \<^verbatim>\<open>new Date(t).toISOString()\<close> for a time value \<open>t\<close> in milliseconds since the epoch, in
  UTC as ECMAScript defines it: \<^verbatim>\<open>YYYY-MM-DDTHH:mm:ss.sssZ\<close>, the year with a sign and six
  digits outside 0..9999. The date of a day number is computed in the proleptic
  Gregorian calendar, by 400-year eras starting on 1 March.
\<close>

definition ms_per_day :: int where
  "ms_per_day = 24 * 60 * 60 * 1000"

fun pad_left :: "nat \<Rightarrow> string \<Rightarrow> string" where
  "pad_left n s = replicate (n - length s) CHR ''0'' @ s"

definition civil_from_days :: "int \<Rightarrow> int \<times> int \<times> int" where
  "civil_from_days days =
     (let z = days + 719468;
          era = z div 146097;
          doe = z - era * 146097;
          yoe = (doe - doe div 1460 + doe div 36524 - doe div 146096) div 365;
          doy = doe - (365 * yoe + yoe div 4 - yoe div 100);
          mp = (5 * doy + 2) div 153;
          d = doy - (153 * mp + 2) div 5 + 1;
          m = (if mp < 10 then mp + 3 else mp - 9);
          y = yoe + era * 400 + (if m \<le> 2 then 1 else 0)
      in (y, m, d))"

definition show_year :: "int \<Rightarrow> string" where
  "show_year y =
     (if 0 \<le> y \<and> y \<le> 9999 then pad_left 4 (show_int y)
      else (if y < 0 then ''-'' else ''+'') @ pad_left 6 (show_int (abs y)))"

definition date_string :: "int \<Rightarrow> string" where
  "date_string days =
     (case civil_from_days days of
        (y, m, d) \<Rightarrow> show_year y @ ''-'' @ pad_left 2 (show_int m) @ ''-'' @ pad_left 2 (show_int d))"

definition time_string :: "int \<Rightarrow> string" where
  "time_string r =
     pad_left 2 (show_int (r div 3600000))
     @ '':'' @ pad_left 2 (show_int (r div 60000 mod 60))
     @ '':'' @ pad_left 2 (show_int (r div 1000 mod 60))
     @ ''.'' @ pad_left 3 (show_int (r mod 1000))"

definition toISOString :: "int \<Rightarrow> string" where
  "toISOString t =
     date_string (t div ms_per_day) @ ''T'' @ time_string (t mod ms_per_day) @ ''Z''"

text \<open>\<^verbatim>\<open>new Date(t).toISOString().split('T')[0]\<close>: the text before the first \<^verbatim>\<open>T\<close>.\<close>

definition iso_date :: "int \<Rightarrow> string" where
  "iso_date t = takeWhile (\<lambda>ch. ch \<noteq> CHR ''T'') (toISOString t)"

section \<open>server.js: the endpoints\<close>

text \<open>
  What an endpoint writes: the status of \<^verbatim>\<open>res.writeHead\<close> and the value its
  \<^verbatim>\<open>JSON.stringify\<close>ed body parses to. An endpoint receives what \<^verbatim>\<open>JSON.parse(body)\<close> gives
  for the request body: a value, or the error it throws.
\<close>

record http_response =
  status :: int
  body :: jsval

definition respond :: "int \<Rightarrow> jsval \<Rightarrow> http_response" where
  "respond st b = \<lparr>status = st, body = json_wire b\<rparr>"

definition error_only :: "string \<Rightarrow> jsval" where
  "error_only m = JObj [(''error'', JStr m)]"




text \<open>\<^verbatim>\<open>POST /api/plaid/create-link-token\<close>\<close>

definition link_token_error :: "js_error \<Rightarrow> http_response" where
  "link_token_error e =
     (let errorMessage = message e;
          isInvalidInstitution = js_includes errorMessage ''INVALID_INSTITUTION'';
          statusCode = (if isInvalidInstitution then 400 else 500)
      in respond statusCode
           (JObj [(''error'', JStr (message e)),
                  (''error_type'',
                   JStr (if isInvalidInstitution then ''INVALID_INSTITUTION''
                         else ''SERVER_ERROR''))]))"

definition api_plaid_create_link_token ::
  "config \<Rightarrow> vendor \<Rightarrow> js_error + jsval \<Rightarrow> world \<Rightarrow> http_response \<times> world" where
  "api_plaid_create_link_token c v parsed w =
     (case parsed of
        Inl e \<Rightarrow> (link_token_error e, w)
      | Inr b \<Rightarrow>
     (case destructure b ''user_id'' of
        Inl e \<Rightarrow> (link_token_error e, w)
      | Inr user_id \<Rightarrow>
     (case destructure b ''institution_id'' of
        Inl e \<Rightarrow> (link_token_error e, w)
      | Inr institution_id \<Rightarrow>
     (case createPlaidLinkToken c v
             (js_or user_id (JStr (''user_'' @ show_int (clock w))))
             (js_or institution_id JNull) w of
        (Inl e, w1) \<Rightarrow> (link_token_error e, w1)
      | (Inr result, w1) \<Rightarrow> (respond 200 result, w1)))))"

text \<open>\<^verbatim>\<open>POST /api/plaid/transactions\<close>\<close>

definition api_plaid_transactions ::
  "config \<Rightarrow> vendor \<Rightarrow> js_error + jsval \<Rightarrow> world \<Rightarrow> http_response \<times> world" where
  "api_plaid_transactions c v parsed w =
     (case parsed of
        Inl e \<Rightarrow> (respond 500 (error_only (message e)), w)
      | Inr b \<Rightarrow>
     (case destructure b ''access_token'' of
        Inl e \<Rightarrow> (respond 500 (error_only (message e)), w)
      | Inr access_token \<Rightarrow>
     (case destructure b ''start_date'' of
        Inl e \<Rightarrow> (respond 500 (error_only (message e)), w)
      | Inr start_date \<Rightarrow>
     (case destructure b ''end_date'' of
        Inl e \<Rightarrow> (respond 500 (error_only (message e)), w)
      | Inr end_date \<Rightarrow>
          if \<not> truthy access_token then
            (respond 400 (error_only ''access_token is required''), w)
          else
            let endDateFinal = js_or end_date (JStr (iso_date (clock w)));
                startDateFinal =
                  js_or start_date (JStr (iso_date (clock w - 30 * 24 * 60 * 60 * 1000)))
            in (case getPlaidTransactions c v access_token startDateFinal endDateFinal w of
                  (Inl e, w1) \<Rightarrow> (respond 500 (error_only (message e)), w1)
                | (Inr result, w1) \<Rightarrow> (respond 200 result, w1))))))"


section \<open>plaid-app.js: obtaining the link token\<close>

text \<open>
  The part of \<^verbatim>\<open>initializePlaid\<close> that obtains the link token (the rest opens the Plaid
  widget). \<^verbatim>\<open>fetch\<close> of the local endpoint is the endpoint's handler applied to the
  serialised request; \<^verbatim>\<open>response.json()\<close> is the handler's body. The function returns
  the link token, or the error its \<^verbatim>\<open>catch\<close> block displays. Each of its two log lines
  reads a property of the response data (\<^verbatim>\<open>data.error_type\<close> after the first attempt,
  \<^verbatim>\<open>data.link_token\<close> after the retry) and so throws when the data is \<^verbatim>\<open>null\<close>. The
  browser reads the same clock as the server here, and the wait between the two attempts
  moves it by its 500 ms.
\<close>

definition response_ok :: "http_response \<Rightarrow> bool" where
  "response_ok r = (200 \<le> status r \<and> status r < 300)"

text \<open>\<^verbatim>\<open>s.includes(sub)\<close> on a value: a string method, an array method, else a TypeError.\<close>

definition value_includes :: "jsval \<Rightarrow> string \<Rightarrow> js_error + bool" where
  "value_includes x sub =
     (case x of
        JStr s \<Rightarrow> Inr (js_includes s sub)
      | JArr xs \<Rightarrow> Inr (JStr sub \<in> set xs)
      | _ \<Rightarrow> Inl (TypeError ''data.error.includes is not a function''))"

text \<open>
  The retry test:
  \<^verbatim>\<open>!response.ok && (data.error_type === 'INVALID_INSTITUTION' ||
    (data.error && data.error.includes('INVALID_INSTITUTION')))\<close>
\<close>

definition should_retry :: "http_response \<Rightarrow> js_error + bool" where
  "should_retry r =
     (if response_ok r then Inr False
      else (case get_prop (body r) ''error_type'' of
              Inl e \<Rightarrow> Inl e
            | Inr et \<Rightarrow>
                if et = JStr ''INVALID_INSTITUTION'' then Inr True
                else (case get_prop (body r) ''error'' of
                        Inl e \<Rightarrow> Inl e
                      | Inr err \<Rightarrow>
                          if truthy err then value_includes err ''INVALID_INSTITUTION''
                          else Inr False)))"

text \<open>The checks on the final response, and the token taken from it.\<close>

definition link_token_of :: "http_response \<Rightarrow> js_error + jsval" where
  "link_token_of r =
     (if \<not> response_ok r then
        (case get_prop (body r) ''error'' of
           Inl e \<Rightarrow> Inl e
         | Inr err \<Rightarrow>
             (case template (js_or err (JStr ''Failed to create link token'')) of
                Inl e \<Rightarrow> Inl e
              | Inr m \<Rightarrow> Inl (PlainError m)))
      else (case get_prop (body r) ''link_token'' of
              Inl e \<Rightarrow> Inl e
            | Inr tok \<Rightarrow>
                if \<not> truthy tok then Inl (PlainError ''No link token returned from server'')
                else Inr tok))"

definition fetch_create_link_token ::
  "config \<Rightarrow> vendor \<Rightarrow> jsval \<Rightarrow> world \<Rightarrow> http_response \<times> world" where
  "fetch_create_link_token c v linkTokenRequest w =
     api_plaid_create_link_token c v (Inr (json_wire linkTokenRequest)) w"

text \<open>
  The user id is the trimmed input field, or \<^verbatim>\<open>`user_${Date.now()}`\<close> when that is
  empty; the institution is the value of the select box, or \<^verbatim>\<open>null\<close> when that is empty.
\<close>

definition chosen_user_id :: "string \<Rightarrow> world \<Rightarrow> string" where
  "chosen_user_id userIdInput w =
     (if js_trim userIdInput \<noteq> [] then js_trim userIdInput
      else ''user_'' @ show_int (clock w))"

definition selected_institution :: "string \<Rightarrow> jsval" where
  "selected_institution institutionSelect =
     (if institutionSelect \<noteq> [] then JStr institutionSelect else JNull)"

definition initializePlaid ::
  "config \<Rightarrow> vendor \<Rightarrow> string \<Rightarrow> string \<Rightarrow> world \<Rightarrow> jsval result" where
  "initializePlaid c v userIdInput institutionSelect w =
     (let userId = chosen_user_id userIdInput w;
          selectedInstitution = selected_institution institutionSelect;
          linkTokenRequest =
            JObj ([(''user_id'', JStr userId)]
                  @ (if truthy selectedInstitution
                     then [(''institution_id'', selectedInstitution)] else []))
      in (case fetch_create_link_token c v linkTokenRequest w of
            (response, w1) \<Rightarrow>
              (case get_prop (body response) ''error_type'' of
                 Inl e \<Rightarrow> (Inl e, w1)
               | Inr _ \<Rightarrow>
              (case should_retry response of
                 Inl e \<Rightarrow> (Inl e, w1)
               | Inr False \<Rightarrow> (link_token_of response, w1)
               | Inr True \<Rightarrow>
                   (case fetch_create_link_token c v (JObj [(''user_id'', JStr userId)])
                           (w1\<lparr>clock := clock w1 + 500\<rparr>) of
                      (response2, w2) \<Rightarrow>
                        (case get_prop (body response2) ''link_token'' of
                           Inl e \<Rightarrow> (Inl e, w2)
                         | Inr _ \<Rightarrow> (link_token_of response2, w2)))))))"

section \<open>Reading the request log, and sample vendors\<close>

text \<open>The OAuth scope a logged request asks for, and whether a logged request names an institution.\<close>

definition scope_of :: "http_request \<Rightarrow> string option" where
  "scope_of r = (case req_body r of FormBody fs \<Rightarrow> map_of fs ''scope'' | _ \<Rightarrow> None)"

definition has_institution :: "http_request \<Rightarrow> bool" where
  "has_institution r =
     (case req_body r of
        JsonBody (JObj fs) \<Rightarrow> map_of fs ''institution_id'' \<noteq> None
      | _ \<Rightarrow> False)"

definition json_field :: "http_request \<Rightarrow> string \<Rightarrow> jsval option" where
  "json_field r k = (case req_body r of JsonBody (JObj fs) \<Rightarrow> map_of fs k | _ \<Rightarrow> None)"

text \<open>The requests a call has added to the log.\<close>

definition new_requests :: "world \<Rightarrow> world \<Rightarrow> http_request list" where
  "new_requests w w' = drop (length (sent w)) (sent w')"

text \<open>
  A list of at most one request, which is no token request and has a bearer token: the
  given token itself when that is a string.
\<close>

definition carries_token :: "jsval \<Rightarrow> http_request list \<Rightarrow> bool" where
  "carries_token token rs =
     (case rs of
        [] \<Rightarrow> True
      | [r] \<Rightarrow> scope_of r = None \<and>
               (case token of
                  JStr s \<Rightarrow> map_of (req_headers r) ''Authorization'' = Some (''Bearer '' @ s)
                | _ \<Rightarrow> map_option (take 7) (map_of (req_headers r) ''Authorization'')
                         = Some ''Bearer '')
      | _ \<Rightarrow> False)"

text \<open>The guarded privileged calls of \<^verbatim>\<open>server.js\<close>, to speak of them together.\<close>

datatype privileged_call =
    CreateCustomer jsval
  | GetAccounts jsval
  | GetAccountBalances jsval jsval
  | GetAccountTransactions jsval jsval
  | ListConsents jsval jsval
  | DeleteConsent jsval jsval jsval jsval

fun perform :: "config \<Rightarrow> vendor \<Rightarrow> privileged_call \<Rightarrow> world \<Rightarrow> jsval result" where
  "perform c v (CreateCustomer appUserId) w = createCustomer c v appUserId w"
| "perform c v (GetAccounts entityId) w = getAccounts c v entityId w"
| "perform c v (GetAccountBalances accountId entityId) w =
     getAccountBalances c v accountId entityId w"
| "perform c v (GetAccountTransactions accountId entityId) w =
     getAccountTransactions c v accountId entityId w"
| "perform c v (ListConsents customerId entityId) w = listConsents c v customerId entityId w"
| "perform c v (DeleteConsent customerId entityId consentId reason) w =
     deleteConsent c v customerId entityId consentId reason w"

definition sample_config :: config where
  "sample_config =
     \<lparr>lean_client_id = ''client-1'',
      lean_client_secret = ''secret-1'',
      lean_auth_url = ''https://auth.sandbox.sa.leantech.me/oauth2/token'',
      lean_api_url = ''https://sandbox.sa.leantech.me'',
      plaid_client_id = JStr ''plaid-client'',
      plaid_secret = JStr ''plaid-secret'',
      plaid_api_url = ''https://sandbox.plaid.com''\<rparr>"

definition api_token_ok :: outcome where
  \<open>api_token_ok =
     Responded 200 ''{"access_token":"api-token-1","expires_in":3600,"scope":"api"}''
       (Some (JObj [(''access_token'', JStr ''api-token-1''), (''expires_in'', JNum 3600),
                    (''scope'', JStr ''api'')]))\<close>

definition api_token_odd_expiry :: outcome where
  \<open>api_token_odd_expiry =
     Responded 200 ''{"access_token":"api-token-1","expires_in":{"toString":1}}''
       (Some (JObj [(''access_token'', JStr ''api-token-1''),
                    (''expires_in'', JObj [(''toString'', JNum 1)])]))\<close>

definition customer_token_ok :: outcome where
  \<open>customer_token_ok =
     Responded 200 ''{"access_token":"cust-token-1","expires_in":3600,"scope":"customer.cust-1"}''
       (Some (JObj [(''access_token'', JStr ''cust-token-1''), (''expires_in'', JNum 3600),
                    (''scope'', JStr ''customer.cust-1'')]))\<close>

definition customer_ok :: outcome where
  \<open>customer_ok =
     Responded 200 ''{"customer_id":"cust-1","app_user_id":"user_abc"}''
       (Some (JObj [(''customer_id'', JStr ''cust-1''), (''app_user_id'', JStr ''user_abc'')]))\<close>

definition customer_without_id :: outcome where
  \<open>customer_without_id =
     Responded 200 ''{"app_user_id":"user_abc"}''
       (Some (JObj [(''app_user_id'', JStr ''user_abc'')]))\<close>

definition unauthorized :: outcome where
  \<open>unauthorized =
     Responded 401 ''{"error":"invalid_client"}''
       (Some (JObj [(''error'', JStr ''invalid_client'')]))\<close>

definition invalid_institution :: outcome where
  \<open>invalid_institution =
     Responded 400 ''{"error_code":"INVALID_INSTITUTION"}''
       (Some (JObj [(''error_code'', JStr ''INVALID_INSTITUTION'')]))\<close>

definition link_token_ok :: outcome where
  \<open>link_token_ok =
     Responded 200 ''{"link_token":"link-sandbox-1"}''
       (Some (JObj [(''link_token'', JStr ''link-sandbox-1'')]))\<close>

definition transactions_ok :: outcome where
  \<open>transactions_ok =
     Responded 200 ''{"transactions":[]}'' (Some (JObj [(''transactions'', JArr [])]))\<close>

text \<open>
  A vendor for \<open>sample_config\<close> that answers every request after 100 ms: the three Lean
  answers are parameters; Plaid rejects a link token request that names an institution
  (as Plaid's sandbox environment does) and accepts one that does not.
\<close>

definition sample_vendor :: "outcome \<Rightarrow> outcome \<Rightarrow> outcome \<Rightarrow> vendor" where
  "sample_vendor api_token customers customer_token hist r =
     (100,
      if req_url r = lean_auth_url sample_config then
        (if scope_of r = Some ''api'' then api_token else customer_token)
      else if req_url r = lean_api_url sample_config @ ''/customers/v1'' then customers
      else if req_url r = plaid_api_url sample_config @ ''/link/token/create'' then
        (if has_institution r then invalid_institution else link_token_ok)
      else transactions_ok)"

text \<open>A Plaid that rejects every link token request, with or without an institution.\<close>

definition always_invalid :: vendor where
  "always_invalid hist r = (100, invalid_institution)"


text \<open>A state whose cached token \<open>api-token-0\<close> expires at time 5000.\<close>

definition cached_world :: "int \<Rightarrow> world" where
  "cached_world t =
     \<lparr>apiAccessToken = JStr ''api-token-0'', apiTokenExpiry = JNum 5000, clock = t, sent = []\<rparr>"


text \<open>The body text of a sample response.\<close>

definition body_text :: "outcome \<Rightarrow> string" where
  "body_text out = (case out of Responded st data p \<Rightarrow> data | Failed m \<Rightarrow> [])"


section \<open>Properties\<close>

subsection \<open>What a request does to the state\<close>

lemma token_request_headers [simp]: "invalid_header (req_headers (token_request c s)) = None"
  by (simp add: token_request_def invalid_header_def valid_header_char_def)

lemma plaid_request_headers [simp]:
  "invalid_header (req_headers (link_token_request c u i)) = None"
  "invalid_header (req_headers (transactions_request c t s e)) = None"
  by (simp_all add: link_token_request_def transactions_request_def plaid_headers_def
      invalid_header_def valid_header_char_def)

lemma makeRequest_sends:
  "invalid_header (req_headers r) = None \<Longrightarrow>
     makeRequest v r w =
       (settle (snd (v (sent w) r)),
        w\<lparr>clock := clock w + int (fst (v (sent w) r)), sent := sent w @ [r]\<rparr>)"
  by (simp add: makeRequest_def split: prod.splits)

lemma makeRequest_rejects:
  "invalid_header (req_headers r) = Some k \<Longrightarrow> makeRequest v r w = (Inl (invalid_char k), w)"
  by (simp add: makeRequest_def)

lemma makeRequest_world:
  "invalid_header (req_headers r) = None \<Longrightarrow> makeRequest v r w = (res, w') \<Longrightarrow>
     apiAccessToken w' = apiAccessToken w \<and> apiTokenExpiry w' = apiTokenExpiry w \<and>
     sent w' = sent w @ [r] \<and> clock w' = clock w + int (fst (v (sent w) r)) \<and>
     settle (snd (v (sent w) r)) = res"
  by (auto simp: makeRequest_sends)

lemma makeRequest_frame:
  "makeRequest v r w = (res, w') \<Longrightarrow>
     apiAccessToken w' = apiAccessToken w \<and> apiTokenExpiry w' = apiTokenExpiry w \<and>
     (sent w' = sent w \<or> sent w' = sent w @ [r])"
  by (cases "invalid_header (req_headers r)") (auto simp: makeRequest_sends makeRequest_rejects)



lemma js_mul_num: "js_mul (JNum n) (JNum 1000) = Inr (JNum (n * 1000))"
  by (simp add: js_mul_def numeric_def num_mul_def)



subsection \<open>When the token cache is written\<close>

text \<open>What \<open>getApiAccessToken\<close> does, by the way its request settles.\<close>

lemma getApiAccessToken_request:
  "getApiAccessToken c v w =
     (case settle (snd (v (sent w) (token_request c ''api''))) of
        Inl e \<Rightarrow> (Inl e, w\<lparr>clock := clock w + int (fst (v (sent w) (token_request c ''api''))),
                           sent := sent w @ [token_request c ''api'']\<rparr>)
      | Inr data \<Rightarrow>
          (case get_prop data ''access_token'' of
             Inl e \<Rightarrow> (Inl e, w\<lparr>clock := clock w + int (fst (v (sent w) (token_request c ''api''))),
                                sent := sent w @ [token_request c ''api'']\<rparr>)
           | Inr tok \<Rightarrow>
               (case get_prop data ''expires_in'' of
                  Inl e \<Rightarrow> (Inl e, w\<lparr>clock := clock w + int (fst (v (sent w) (token_request c ''api''))),
                                     sent := sent w @ [token_request c ''api''],
                                     apiAccessToken := tok\<rparr>)
                | Inr ex \<Rightarrow>
                    (case js_mul ex (JNum 1000) of
                       Inl e \<Rightarrow> (Inl e, w\<lparr>clock := clock w + int (fst (v (sent w) (token_request c ''api''))),
                                          sent := sent w @ [token_request c ''api''],
                                          apiAccessToken := tok\<rparr>)
                     | Inr ms \<Rightarrow>
                         (Inr tok,
                          w\<lparr>clock := clock w + int (fst (v (sent w) (token_request c ''api''))),
                            sent := sent w @ [token_request c ''api''],
                            apiAccessToken := tok,
                            apiTokenExpiry :=
                              num_add (JNum (clock w + int (fst (v (sent w) (token_request c ''api''))))) ms\<rparr>)))))"
  by (simp add: getApiAccessToken_def makeRequest_sends Let_def split: sum.splits)


lemma sample_token_answer:
  "sample_vendor a cu ct hist (token_request sample_config ''api'') = (100, a)"
  by (simp add: sample_vendor_def token_request_def sample_config_def scope_of_def)

lemma settle_samples:
  "settle unauthorized = Inl (HttpError 401 (body_text unauthorized))"
  "settle api_token_ok =
     Inr (JObj [(''access_token'', JStr ''api-token-1''), (''expires_in'', JNum 3600),
                (''scope'', JStr ''api'')])"
  "settle api_token_odd_expiry =
     Inr (JObj [(''access_token'', JStr ''api-token-1''),
                (''expires_in'', JObj [(''toString'', JNum 1)])])"
  by (simp_all add: settle_def unauthorized_def api_token_ok_def api_token_odd_expiry_def
      body_text_def js_trim_def is_space_def)

lemma cached_world_fields:
  "apiAccessToken (cached_world t) = JStr ''api-token-0''"
  "apiTokenExpiry (cached_world t) = JNum 5000"
  "clock (cached_world t) = t" "sent (cached_world t) = []"
  by (simp_all add: cached_world_def)



subsection \<open>Customer token elevation never touches the cache\<close>

lemma js_trim_Nil: "js_trim [] = []"
  by (simp add: js_trim_def)

lemma scope_of_requests:
  "scope_of (token_request c s) = Some s"
  "scope_of (customer_request c t a) = None"
  by (simp_all add: scope_of_def token_request_def customer_request_def)

lemma getCustomerAccessToken_ignores_cache:
  "getCustomerAccessToken c v customerId (w\<lparr>apiAccessToken := x, apiTokenExpiry := y\<rparr>) =
     (fst (getCustomerAccessToken c v customerId w),
      (snd (getCustomerAccessToken c v customerId w))\<lparr>apiAccessToken := x, apiTokenExpiry := y\<rparr>)"
  by (simp add: getCustomerAccessToken_def makeRequest_sends split: sum.splits)

text \<open>
  C6. \<open>getCustomerAccessToken\<close> in any state and against any vendor. It leaves the
  cached API-level token and its expiry as they were, and neither what it returns nor
  what it sends depends on them: run from a state with another cache content, it gives
  the same result and the same state but for that content. For a customer id that is a
  string it sends one token request, whose scope is \<^verbatim>\<open>customer.\<close> followed by the id,
  and hands back what that request settled to, which for a 2xx response with a JSON body
  is the vendor's object itself, so its \<^verbatim>\<open>access_token\<close>, \<^verbatim>\<open>expires_in\<close> and \<^verbatim>\<open>scope\<close>
  are the vendor's. For any other id that the template literal can convert to a string
  it sends one token request with a \<^verbatim>\<open>customer.\<close> scope likewise; for an id that it
  cannot convert it throws the TypeError and sends nothing.
\<close>

theorem getCustomerAccessToken_fresh:
  assumes "getCustomerAccessToken c v customerId w = (res, w')"
  shows "apiAccessToken w' = apiAccessToken w \<and> apiTokenExpiry w' = apiTokenExpiry w \<and>
         (\<forall>x y. getCustomerAccessToken c v customerId
                   (w\<lparr>apiAccessToken := x, apiTokenExpiry := y\<rparr>)
                 = (res, w'\<lparr>apiAccessToken := x, apiTokenExpiry := y\<rparr>)) \<and>
         (\<forall>s. customerId = JStr s \<longrightarrow>
            sent w' = sent w @ [token_request c (''customer.'' @ s)] \<and>
            scope_of (token_request c (''customer.'' @ s)) = Some (''customer.'' @ s) \<and>
            res = settle (snd (v (sent w) (token_request c (''customer.'' @ s)))) \<and>
            (\<forall>st data j. snd (v (sent w) (token_request c (''customer.'' @ s)))
                  = Responded st data (Some j) \<and> 200 \<le> st \<and> st < 300 \<and> js_trim data \<noteq> []
               \<longrightarrow> res = Inr j)) \<and>
         (coercible customerId \<longrightarrow>
            (\<exists>s. sent w' = sent w @ [token_request c (''customer.'' @ s)] \<and>
                 res = settle (snd (v (sent w) (token_request c (''customer.'' @ s)))))) \<and>
         (\<not> coercible customerId \<longrightarrow> res = Inl cannot_convert \<and> sent w' = sent w)"
proof (cases "coercible customerId")
  case False
  with assms getCustomerAccessToken_ignores_cache [where c = c and v = v and customerId = customerId and w = w] show ?thesis
    by (auto simp: getCustomerAccessToken_def template_def)
next
  case True
  with assms
  have "makeRequest v (token_request c (''customer.'' @ to_string customerId)) w = (res, w')"
    by (simp add: getCustomerAccessToken_def template_def)
  from makeRequest_world [OF token_request_headers this] True
    getCustomerAccessToken_ignores_cache [where c = c and v = v and customerId = customerId and w = w] assms
  show ?thesis
    by (auto simp: scope_of_requests settle_def js_trim_Nil)
qed

text \<open>
  On the sample vendor, from a state with a cached token: the request for \<open>cust-1\<close> is the
  only one sent, the cache is as before, and the vendor's object comes back.
\<close>

theorem getCustomerAccessToken_fresh_witness:
  "sent (snd (getCustomerAccessToken sample_config
               (sample_vendor api_token_ok customer_ok customer_token_ok)
               (JStr ''cust-1'') (cached_world 1000)))
     = [token_request sample_config ''customer.cust-1''] \<and>
   apiAccessToken (snd (getCustomerAccessToken sample_config
               (sample_vendor api_token_ok customer_ok customer_token_ok)
               (JStr ''cust-1'') (cached_world 1000))) = JStr ''api-token-0'' \<and>
   apiTokenExpiry (snd (getCustomerAccessToken sample_config
               (sample_vendor api_token_ok customer_ok customer_token_ok)
               (JStr ''cust-1'') (cached_world 1000))) = JNum 5000 \<and>
   fst (getCustomerAccessToken sample_config
               (sample_vendor api_token_ok customer_ok customer_token_ok)
               (JStr ''cust-1'') (cached_world 1000))
     = Inr (JObj [(''access_token'', JStr ''cust-token-1''), (''expires_in'', JNum 3600),
                  (''scope'', JStr ''customer.cust-1'')])"
proof -
  obtain res w' where run:
    "getCustomerAccessToken sample_config (sample_vendor api_token_ok customer_ok customer_token_ok)
       (JStr ''cust-1'') (cached_world 1000) = (res, w')"
    by (cases "getCustomerAccessToken sample_config
                 (sample_vendor api_token_ok customer_ok customer_token_ok)
                 (JStr ''cust-1'') (cached_world 1000)")
  have out: "snd (sample_vendor api_token_ok customer_ok customer_token_ok []
                (token_request sample_config ''customer.cust-1'')) = customer_token_ok"
    by (simp add: sample_vendor_def token_request_def sample_config_def scope_of_def)
  have st: "settle customer_token_ok =
      Inr (JObj [(''access_token'', JStr ''cust-token-1''), (''expires_in'', JNum 3600),
                 (''scope'', JStr ''customer.cust-1'')])"
    by (simp add: customer_token_ok_def settle_def js_trim_def is_space_def)
  from getCustomerAccessToken_fresh [OF run]
  show ?thesis
    by (simp add: run cached_world_fields out st)
qed

subsection \<open>The cache contract of the guarded calls\<close>

lemma getApiAccessToken_success:
  assumes "v (sent w) (token_request c ''api'') = (d, Responded st data (Some j))"
    and "200 \<le> st" "st < 300" "js_trim data \<noteq> []"
    and "get_prop j ''access_token'' = Inr tok"
    and "get_prop j ''expires_in'' = Inr (JNum n)"
  shows "getApiAccessToken c v w =
          (Inr tok, w\<lparr>clock := clock w + int d,
                      sent := sent w @ [token_request c ''api''],
                      apiAccessToken := tok,
                      apiTokenExpiry := JNum (clock w + int d + n * 1000)\<rparr>)"
  using assms
  by (auto simp: getApiAccessToken_request settle_def js_trim_Nil js_mul_num num_add_def)

lemma js_ge_num: "js_ge t (JNum e) = Inr (e \<le> t)"
  by (simp add: js_ge_def numeric_def)

lemma token_needed_hit:
  "truthy (apiAccessToken w) \<Longrightarrow> apiTokenExpiry w = JNum e \<Longrightarrow> clock w < e \<Longrightarrow>
     token_needed w = Inr False"
  by (simp add: token_needed_def js_ge_num)

lemma token_needed_miss:
  "\<not> truthy (apiAccessToken w) \<or> (\<exists>e. apiTokenExpiry w = JNum e \<and> e \<le> clock w) \<Longrightarrow>
     token_needed w = Inr True"
  by (auto simp: token_needed_def js_ge_num)

lemma ensure_token_hit: "token_needed w = Inr False \<Longrightarrow> ensure_token c v w = (Inr JUndefined, w)"
  by (simp add: ensure_token_def)

lemma ensure_token_miss: "token_needed w = Inr True \<Longrightarrow> ensure_token c v w = getApiAccessToken c v w"
  by (simp add: ensure_token_def)

lemma scope_of_bearer: "scope_of (bearer_request m url t others) = None"
  by (simp add: scope_of_def bearer_request_def)

lemma carries_token_Nil: "carries_token t []"
  by (simp add: carries_token_def)

lemma carries_token_bearer:
  "coercible t \<Longrightarrow> carries_token t [bearer_request m url t others]"
  using scope_of_bearer [of m url t others]
  by (simp add: carries_token_def bearer_request_def split: jsval.splits)

lemma carries_token_customer:
  "coercible t \<Longrightarrow> carries_token t [customer_request c t a]"
  using scope_of_requests(2) [of c t a]
  by (simp add: carries_token_def customer_request_def split: jsval.splits)

text \<open>After the guard, a privileged call sends at most one request, with the cached token.\<close>

lemma send_with_token:
  assumes "makeRequest v r w1 = (res, w')" "carries_token (apiAccessToken w1) [r]"
  shows "apiAccessToken w' = apiAccessToken w1 \<and> apiTokenExpiry w' = apiTokenExpiry w1 \<and>
         (\<exists>rs. sent w' = sent w1 @ rs \<and> carries_token (apiAccessToken w1) rs)"
  using makeRequest_frame [OF assms(1)] assms(2)
  by (auto simp: carries_token_Nil)

lemma perform_after_guard:
  assumes "perform c v k w = (res, w')"
  shows "\<exists>r1 w1. ensure_token c v w = (r1, w1) \<and>
           apiAccessToken w' = apiAccessToken w1 \<and> apiTokenExpiry w' = apiTokenExpiry w1 \<and>
           (\<exists>rs. sent w' = sent w1 @ rs \<and> carries_token (apiAccessToken w1) rs)"
proof -
  obtain r1 w1 where g: "ensure_token c v w = (r1, w1)"
    by (cases "ensure_token c v w")
  have "apiAccessToken w' = apiAccessToken w1 \<and> apiTokenExpiry w' = apiTokenExpiry w1 \<and>
           (\<exists>rs. sent w' = sent w1 @ rs \<and> carries_token (apiAccessToken w1) rs)"
  proof (cases r1)
    case (Inl e)
    with assms g have "w' = w1"
      by (cases k)
        (simp_all add: createCustomer_def getAccounts_def getAccountBalances_def
          getAccountTransactions_def listConsents_def deleteConsent_def Let_def)
    then show ?thesis by (simp add: carries_token_Nil)
  next
    case (Inr u)
    show ?thesis
    proof (cases "coercible (apiAccessToken w1)")
      case False
      with assms g Inr have "w' = w1"
        by (cases k)
          (auto simp: createCustomer_def getAccounts_def getAccountBalances_def
            getAccountTransactions_def listConsents_def deleteConsent_def Let_def
            split: if_splits)
      then show ?thesis by (simp add: carries_token_Nil)
    next
      case True
      note ct = carries_token_bearer [OF True] carries_token_customer [OF True]
      show ?thesis
      proof (cases k)
        case (CreateCustomer a)
        with assms g Inr True show ?thesis
          by (auto simp: createCustomer_def carries_token_Nil
              split: prod.splits sum.splits dest!: send_with_token [OF _ ct(2)])
      next
        case (GetAccounts x)
        with assms g Inr True show ?thesis
          by (auto simp: getAccounts_def carries_token_Nil
              split: prod.splits sum.splits if_splits dest!: send_with_token [OF _ ct(1)])
      next
        case (GetAccountBalances x y)
        with assms g Inr True show ?thesis
          by (auto simp: getAccountBalances_def carries_token_Nil
              split: prod.splits sum.splits if_splits dest!: send_with_token [OF _ ct(1)])
      next
        case (GetAccountTransactions x y)
        with assms g Inr True show ?thesis
          by (auto simp: getAccountTransactions_def carries_token_Nil
              split: prod.splits sum.splits if_splits dest!: send_with_token [OF _ ct(1)])
      next
        case (ListConsents x y)
        with assms g Inr True show ?thesis
          by (auto simp: listConsents_def carries_token_Nil
              split: prod.splits sum.splits if_splits dest!: send_with_token [OF _ ct(1)])
      next
        case (DeleteConsent x y z r)
        with assms g Inr True show ?thesis
          by (auto simp: deleteConsent_def carries_token_Nil Let_def
              split: prod.splits sum.splits if_splits dest!: send_with_token [OF _ ct(1)])
      qed
    qed
  qed
  with g show ?thesis by blast
qed

lemma new_requests_append: "sent w' = sent w @ rs \<Longrightarrow> new_requests w w' = rs"
  by (simp add: new_requests_def)

lemma carries_token_no_token_request:
  "carries_token t rs \<Longrightarrow> filter (\<lambda>r. scope_of r = Some ''api'') rs = []"
  by (cases rs rule: list.exhaust [case_product list.exhaust])
     (auto simp: carries_token_def split: list.splits)

lemma customer_request_headers:
  "list_all valid_header_char s \<Longrightarrow>
     invalid_header (req_headers (customer_request c (JStr s) a)) = None"
  by (simp add: customer_request_def invalid_header_def valid_header_char_def)

lemma perform_hit:
  assumes "perform c v k w = (res, w')"
    and "truthy (apiAccessToken w)" "apiTokenExpiry w = JNum e" "clock w < e"
  shows "carries_token (apiAccessToken w) (new_requests w w') \<and>
         apiAccessToken w' = apiAccessToken w \<and> apiTokenExpiry w' = apiTokenExpiry w"
proof -
  have "ensure_token c v w = (Inr JUndefined, w)"
    by (rule ensure_token_hit [OF token_needed_hit [OF assms(2-4)]])
  with perform_after_guard [OF assms(1)] show ?thesis
    by (auto simp: new_requests_append)
qed

lemma createCustomer_after_guard:
  assumes "ensure_token c v w = (Inr u, w1)" "apiAccessToken w1 = JStr s"
    "list_all valid_header_char s"
  shows "sent (snd (createCustomer c v a w)) = sent w1 @ [customer_request c (JStr s) a]"
  using assms
  by (simp add: createCustomer_def makeRequest_sends customer_request_headers
      split: sum.splits)

lemma perform_miss:
  assumes "perform c v k w = (res, w1)"
    and "\<not> truthy (apiAccessToken w) \<or> (\<exists>e. apiTokenExpiry w = JNum e \<and> e \<le> clock w)"
    and "v (sent w) (token_request c ''api'') = (d, Responded st data (Some j))"
    and "200 \<le> st" "st < 300" "js_trim data \<noteq> []"
    and "get_prop j ''access_token'' = Inr tok"
    and "get_prop j ''expires_in'' = Inr (JNum n)"
  shows "(\<exists>rest. sent w1 = sent w @ token_request c ''api'' # rest \<and> carries_token tok rest) \<and>
         apiAccessToken w1 = tok \<and> apiTokenExpiry w1 = JNum (clock w + int d + n * 1000)"
proof -
  have "ensure_token c v w = getApiAccessToken c v w"
    by (rule ensure_token_miss [OF token_needed_miss [OF assms(2)]])
  also note getApiAccessToken_success [where v = v and w = w and c = c, OF assms(3-8)]
  finally have g: "ensure_token c v w =
          (Inr tok, w\<lparr>clock := clock w + int d,
                      sent := sent w @ [token_request c ''api''],
                      apiAccessToken := tok,
                      apiTokenExpiry := JNum (clock w + int d + n * 1000)\<rparr>)" .
  with perform_after_guard [OF assms(1)] show ?thesis
    by auto
qed

text \<open>
  C1, as the code has it. The calls that start with the guard are \<open>createCustomer\<close>,
  \<open>getAccounts\<close>, \<open>getAccountBalances\<close>, \<open>getAccountTransactions\<close>, \<open>listConsents\<close> and
  \<open>deleteConsent\<close>; \<open>perform\<close> runs any of them. In any state and against any vendor:

  With a cached token (a truthy \<^verbatim>\<open>apiAccessToken\<close>) and the clock strictly before its
  expiry, a guarded call sends no token request: it sends at most one request, which
  carries the cached token as its bearer token, and it leaves the cache unchanged;
  \<open>createCustomer\<close> with a cached token that is a string of legal header characters sends
  exactly its customer request.

  With no cached token, or the clock at or after the expiry, and a token endpoint that
  answers 2xx with \<^verbatim>\<open>access_token\<close> and an integer \<^verbatim>\<open>expires_in\<close> (all within the range of
  exact integers): the call first sends the client-credentials request for scope
  \<^verbatim>\<open>api\<close>, then at most one request with the new token, and it stores the token with
  the expiry \<open>now + expires_in * 1000\<close>, \<open>now\<close> being the time the response arrived. A
  second guarded call at any time before that expiry sends no token request: the two
  calls together have sent one.

  \<open>getLeanBanks\<close> has no guard: its first request is a token request in every state.
\<close>

theorem guarded_calls_token_cache:
  "(\<forall>k res w' e. perform c v k w = (res, w') \<and>
        truthy (apiAccessToken w) \<and> apiTokenExpiry w = JNum e \<and> clock w < e \<longrightarrow>
      carries_token (apiAccessToken w) (new_requests w w') \<and>
      apiAccessToken w' = apiAccessToken w \<and> apiTokenExpiry w' = apiTokenExpiry w \<and>
      (\<forall>a s. k = CreateCustomer a \<and> apiAccessToken w = JStr s \<and> list_all valid_header_char s
         \<longrightarrow> new_requests w w' = [customer_request c (JStr s) a])) \<and>
   (\<forall>k res w1 d st data j tok n. perform c v k w = (res, w1) \<and>
        (\<not> truthy (apiAccessToken w) \<or> (\<exists>e. apiTokenExpiry w = JNum e \<and> e \<le> clock w)) \<and>
        v (sent w) (token_request c ''api'') = (d, Responded st data (Some j)) \<and>
        200 \<le> st \<and> st < 300 \<and> js_trim data \<noteq> [] \<and>
        get_prop j ''access_token'' = Inr tok \<and> get_prop j ''expires_in'' = Inr (JNum n) \<and>
        safe_int n \<and> safe_int (n * 1000) \<and> safe_int (clock w + int d) \<and>
        safe_int (clock w + int d + n * 1000) \<longrightarrow>
      (\<exists>rest. new_requests w w1 = token_request c ''api'' # rest \<and> carries_token tok rest) \<and>
      apiAccessToken w1 = tok \<and> apiTokenExpiry w1 = JNum (clock w + int d + n * 1000) \<and>
      (\<forall>a s. k = CreateCustomer a \<and> tok = JStr s \<and> list_all valid_header_char s
         \<longrightarrow> new_requests w w1 = [token_request c ''api'', customer_request c (JStr s) a]) \<and>
      (\<forall>k2 t res2 w2. truthy tok \<and> t < clock w + int d + n * 1000 \<and>
           perform c v k2 (w1\<lparr>clock := t\<rparr>) = (res2, w2) \<longrightarrow>
         carries_token tok (new_requests w1 w2) \<and>
         apiAccessToken w2 = tok \<and> apiTokenExpiry w2 = JNum (clock w + int d + n * 1000) \<and>
         length (filter (\<lambda>r. scope_of r = Some ''api'') (new_requests w w2)) = 1)) \<and>
   (\<exists>rest. new_requests w (snd (getLeanBanks c v w)) = token_request c ''api'' # rest)"
proof (intro conjI allI impI)
  fix k res w' e
  assume h: "perform c v k w = (res, w') \<and>
        truthy (apiAccessToken w) \<and> apiTokenExpiry w = JNum e \<and> clock w < e"
  then have run: "perform c v k w = (res, w')" and hit: "truthy (apiAccessToken w)"
      "apiTokenExpiry w = JNum e" "clock w < e"
    by simp_all
  note ph = perform_hit [OF run hit]
  show "carries_token (apiAccessToken w) (new_requests w w')" using ph by simp
  show "apiAccessToken w' = apiAccessToken w" using ph by simp
  show "apiTokenExpiry w' = apiTokenExpiry w" using ph by simp
  fix a s
  assume cc: "k = CreateCustomer a \<and> apiAccessToken w = JStr s \<and> list_all valid_header_char s"
  have "ensure_token c v w = (Inr JUndefined, w)"
    by (rule ensure_token_hit [OF token_needed_hit [OF hit]])
  from createCustomer_after_guard [OF this, of s a] cc run
  show "new_requests w w' = [customer_request c (JStr s) a]"
    by (simp add: new_requests_append)
next
  fix k res w1 d st data j tok n
  assume h: "perform c v k w = (res, w1) \<and>
        (\<not> truthy (apiAccessToken w) \<or> (\<exists>e. apiTokenExpiry w = JNum e \<and> e \<le> clock w)) \<and>
        v (sent w) (token_request c ''api'') = (d, Responded st data (Some j)) \<and>
        200 \<le> st \<and> st < 300 \<and> js_trim data \<noteq> [] \<and>
        get_prop j ''access_token'' = Inr tok \<and> get_prop j ''expires_in'' = Inr (JNum n) \<and>
        safe_int n \<and> safe_int (n * 1000) \<and> safe_int (clock w + int d) \<and>
        safe_int (clock w + int d + n * 1000)"
  then have run: "perform c v k w = (res, w1)"
    and miss: "\<not> truthy (apiAccessToken w) \<or> (\<exists>e. apiTokenExpiry w = JNum e \<and> e \<le> clock w)"
    and ans: "v (sent w) (token_request c ''api'') = (d, Responded st data (Some j))"
      "200 \<le> st" "st < 300" "js_trim data \<noteq> []"
      "get_prop j ''access_token'' = Inr tok" "get_prop j ''expires_in'' = Inr (JNum n)"
    by simp_all
  from perform_miss [OF run miss ans]
  obtain rest where rest: "sent w1 = sent w @ token_request c ''api'' # rest"
      "carries_token tok rest"
    and cache: "apiAccessToken w1 = tok" "apiTokenExpiry w1 = JNum (clock w + int d + n * 1000)"
    by blast
  from rest show "\<exists>rest. new_requests w w1 = token_request c ''api'' # rest \<and> carries_token tok rest"
    by (simp add: new_requests_append)
  show "apiAccessToken w1 = tok" by (rule cache)
  show "apiTokenExpiry w1 = JNum (clock w + int d + n * 1000)" by (rule cache)
  {
    fix a s
    assume cc: "k = CreateCustomer a \<and> tok = JStr s \<and> list_all valid_header_char s"
    have "ensure_token c v w = getApiAccessToken c v w"
      by (rule ensure_token_miss [OF token_needed_miss [OF miss]])
    with getApiAccessToken_success [where v = v and w = w and c = c, OF ans]
    have "ensure_token c v w =
          (Inr tok, w\<lparr>clock := clock w + int d,
                      sent := sent w @ [token_request c ''api''],
                      apiAccessToken := tok,
                      apiTokenExpiry := JNum (clock w + int d + n * 1000)\<rparr>)"
      by simp
    from createCustomer_after_guard [OF this, of s a] cc run
    show "new_requests w w1 = [token_request c ''api'', customer_request c (JStr s) a]"
      by (simp add: new_requests_append)
  }
  fix k2 t res2 w2
  assume s: "truthy tok \<and> t < clock w + int d + n * 1000 \<and>
           perform c v k2 (w1\<lparr>clock := t\<rparr>) = (res2, w2)"
  then have "perform c v k2 (w1\<lparr>clock := t\<rparr>) = (res2, w2)"
      "truthy (apiAccessToken (w1\<lparr>clock := t\<rparr>))"
      "apiTokenExpiry (w1\<lparr>clock := t\<rparr>) = JNum (clock w + int d + n * 1000)"
      "clock (w1\<lparr>clock := t\<rparr>) < clock w + int d + n * 1000"
    using cache by simp_all
  from perform_hit [OF this] cache
  have second: "carries_token tok (new_requests w1 w2)" "apiAccessToken w2 = tok"
      "apiTokenExpiry w2 = JNum (clock w + int d + n * 1000)"
    by (simp_all add: new_requests_def)
  from second show "carries_token tok (new_requests w1 w2)" by simp
  from second show "apiAccessToken w2 = tok" by simp
  from second show "apiTokenExpiry w2 = JNum (clock w + int d + n * 1000)" by simp
  from perform_after_guard [OF \<open>perform c v k2 (w1\<lparr>clock := t\<rparr>) = (res2, w2)\<close>]
    ensure_token_hit [OF token_needed_hit
      [OF \<open>truthy (apiAccessToken (w1\<lparr>clock := t\<rparr>))\<close>
          \<open>apiTokenExpiry (w1\<lparr>clock := t\<rparr>) = JNum (clock w + int d + n * 1000)\<close>
          \<open>clock (w1\<lparr>clock := t\<rparr>) < clock w + int d + n * 1000\<close>], of c v]
  obtain rs2 where rs2: "sent w2 = sent w1 @ rs2" "carries_token tok rs2"
    using cache by auto
  have "new_requests w w2 = token_request c ''api'' # rest @ rs2"
    using rest rs2 by (simp add: new_requests_def)
  then show "length (filter (\<lambda>r. scope_of r = Some ''api'') (new_requests w w2)) = 1"
    using carries_token_no_token_request [OF rest(2)] carries_token_no_token_request [OF rs2(2)]
    by (simp add: scope_of_requests)
next
  obtain r1 w1 where g: "getApiAccessToken c v w = (r1, w1)"
    by (cases "getApiAccessToken c v w")
  then have s1: "sent w1 = sent w @ [token_request c ''api'']"
    by (auto simp: getApiAccessToken_request split: sum.splits)
  have "\<exists>rs. sent (snd (getLeanBanks c v w)) = sent w1 @ rs"
    using g
    by (auto simp: getLeanBanks_def split: sum.splits prod.splits dest!: makeRequest_frame)
  with s1 show "\<exists>rest. new_requests w (snd (getLeanBanks c v w)) = token_request c ''api'' # rest"
    by (auto simp: new_requests_def)
qed

text \<open>
  On the sample vendor: with the cached token still valid \<open>createCustomer\<close> sends its
  customer request alone; with the token expired \<open>getAccounts\<close> fetches and stores a new
  one, and a \<open>createCustomer\<close> after it sends no further token request.
\<close>

theorem guarded_calls_token_cache_witness:
  "new_requests (cached_world 1000)
     (snd (perform sample_config (sample_vendor api_token_ok customer_ok customer_token_ok)
             (CreateCustomer (JStr ''user_abc'')) (cached_world 1000)))
     = [customer_request sample_config (JStr ''api-token-0'') (JStr ''user_abc'')] \<and>
   apiAccessToken
     (snd (perform sample_config (sample_vendor api_token_ok customer_ok customer_token_ok)
             (GetAccounts (JStr ''entity-1'')) (cached_world 9000))) = JStr ''api-token-1'' \<and>
   apiTokenExpiry
     (snd (perform sample_config (sample_vendor api_token_ok customer_ok customer_token_ok)
             (GetAccounts (JStr ''entity-1'')) (cached_world 9000))) = JNum 3609100 \<and>
   length (filter (\<lambda>r. scope_of r = Some ''api'')
     (new_requests (cached_world 9000)
        (snd (perform sample_config (sample_vendor api_token_ok customer_ok customer_token_ok)
                (CreateCustomer (JStr ''user_xyz''))
                ((snd (perform sample_config
                         (sample_vendor api_token_ok customer_ok customer_token_ok)
                         (GetAccounts (JStr ''entity-1'')) (cached_world 9000)))
                   \<lparr>clock := 20000\<rparr>))))) = 1"
proof -
  let ?V = "sample_vendor api_token_ok customer_ok customer_token_ok"
  let ?j = "JObj [(''access_token'', JStr ''api-token-1''), (''expires_in'', JNum 3600),
                  (''scope'', JStr ''api'')]"
  obtain r0 w0 where run0:
    "perform sample_config ?V (CreateCustomer (JStr ''user_abc'')) (cached_world 1000) = (r0, w0)"
    by (cases "perform sample_config ?V (CreateCustomer (JStr ''user_abc'')) (cached_world 1000)")
  obtain r1 w1 where run1:
    "perform sample_config ?V (GetAccounts (JStr ''entity-1'')) (cached_world 9000) = (r1, w1)"
    by (cases "perform sample_config ?V (GetAccounts (JStr ''entity-1'')) (cached_world 9000)")
  obtain r2 w2 where run2:
    "perform sample_config ?V (CreateCustomer (JStr ''user_xyz'')) (w1\<lparr>clock := 20000\<rparr>) = (r2, w2)"
    by (cases "perform sample_config ?V (CreateCustomer (JStr ''user_xyz'')) (w1\<lparr>clock := 20000\<rparr>)")
  note inst1 = guarded_calls_token_cache
    [where w = "cached_world 1000" and c = sample_config and v = ?V]
  note inst2 = guarded_calls_token_cache
    [where w = "cached_world 9000" and c = sample_config and v = ?V]
  have hit: "perform sample_config ?V (CreateCustomer (JStr ''user_abc'')) (cached_world 1000)
        = (r0, w0) \<and>
      truthy (apiAccessToken (cached_world 1000)) \<and>
      apiTokenExpiry (cached_world 1000) = JNum 5000 \<and> clock (cached_world 1000) < 5000"
    using run0 by (simp add: cached_world_fields)
  have tok: "CreateCustomer (JStr ''user_abc'') = CreateCustomer (JStr ''user_abc'') \<and>
      apiAccessToken (cached_world 1000) = JStr ''api-token-0'' \<and>
      list_all valid_header_char ''api-token-0''"
    by (simp add: cached_world_fields valid_header_char_def)
  have miss: "perform sample_config ?V (GetAccounts (JStr ''entity-1'')) (cached_world 9000)
        = (r1, w1) \<and>
      (\<not> truthy (apiAccessToken (cached_world 9000)) \<or>
       (\<exists>e. apiTokenExpiry (cached_world 9000) = JNum e \<and> e \<le> clock (cached_world 9000))) \<and>
      ?V (sent (cached_world 9000)) (token_request sample_config ''api'')
        = (100, Responded 200 (body_text api_token_ok) (Some ?j)) \<and>
      (200::int) \<le> 200 \<and> (200::int) < 300 \<and>
      js_trim (body_text api_token_ok) \<noteq> [] \<and>
      get_prop ?j ''access_token'' = Inr (JStr ''api-token-1'') \<and>
      get_prop ?j ''expires_in'' = Inr (JNum 3600) \<and>
      safe_int 3600 \<and> safe_int (3600 * 1000) \<and>
      safe_int (clock (cached_world 9000) + int 100) \<and>
      safe_int (clock (cached_world 9000) + int 100 + 3600 * 1000)"
    using run1
    by (simp add: cached_world_fields sample_token_answer api_token_ok_def body_text_def
        js_trim_def is_space_def safe_int_def)
  have again: "truthy (JStr ''api-token-1'') \<and>
      20000 < clock (cached_world 9000) + int 100 + 3600 * 1000 \<and>
      perform sample_config ?V (CreateCustomer (JStr ''user_xyz'')) (w1\<lparr>clock := 20000\<rparr>)
        = (r2, w2)"
    using run2 by (simp add: cached_world_fields)
  note h1 = inst1 [THEN conjunct1, rule_format, OF hit]
  note h2 = inst2 [THEN conjunct2, THEN conjunct1, rule_format, OF miss]
  from h1 tok
  have first: "new_requests (cached_world 1000) w0
      = [customer_request sample_config (JStr ''api-token-0'') (JStr ''user_abc'')]"
    by blast
  from h2
  have cache: "apiAccessToken w1 = JStr ''api-token-1'' \<and>
      apiTokenExpiry w1 = JNum (clock (cached_world 9000) + int 100 + 3600 * 1000)"
    by blast
  from h2 again
  have once: "length (filter (\<lambda>r. scope_of r = Some ''api'') (new_requests (cached_world 9000) w2)) = 1"
    by blast
  from first cache once run0 run1 run2 show ?thesis
    by (simp add: cached_world_fields)
qed

lemma sample_token_run:
  "getApiAccessToken sample_config (sample_vendor api_token_ok cu ct) (cached_world t) =
     (Inr (JStr ''api-token-1''),
      \<lparr>apiAccessToken = JStr ''api-token-1'', apiTokenExpiry = JNum (t + 100 + 3600000),
        clock = t + 100, sent = [token_request sample_config ''api'']\<rparr>)"
  by (simp add: getApiAccessToken_request sample_token_answer settle_samples js_mul_num
      num_add_def cached_world_def)

text \<open>
  The claim as stated, of every privileged call, fails for \<open>getLeanBanks\<close>: with a cached
  token that is valid until 5000 and the clock at 1000 it still sends a token request,
  and the bearer token of its second request is not the cached one.
\<close>

theorem getLeanBanks_counterexample:
  "truthy (apiAccessToken (cached_world 1000)) \<and>
   apiTokenExpiry (cached_world 1000) = JNum 5000 \<and> clock (cached_world 1000) < 5000 \<and>
   map scope_of (new_requests (cached_world 1000)
     (snd (getLeanBanks sample_config (sample_vendor api_token_ok customer_ok customer_token_ok)
             (cached_world 1000)))) = [Some ''api'', None] \<and>
   map (\<lambda>r. map_of (req_headers r) ''Authorization'') (new_requests (cached_world 1000)
     (snd (getLeanBanks sample_config (sample_vendor api_token_ok customer_ok customer_token_ok)
             (cached_world 1000)))) = [None, Some ''Bearer undefined'']"
proof -
  let ?r = "bearer_request ''GET'' (lean_api_url sample_config @ ''/entities/v1'') JUndefined
              [(''Content-Type'', ''application/json''),
               (''lean-app-token'', lean_client_id sample_config)]"
  have hs: "invalid_header (req_headers ?r) = None"
    by (simp add: bearer_request_def sample_config_def invalid_header_def valid_header_char_def)
  have "sent (snd (getLeanBanks sample_config
           (sample_vendor api_token_ok customer_ok customer_token_ok) (cached_world 1000)))
        = [token_request sample_config ''api'', ?r]"
    by (simp add: getLeanBanks_def sample_token_run makeRequest_sends [OF hs]
        split: sum.splits)
  then show ?thesis
    by (simp add: new_requests_def cached_world_fields scope_of_def
        token_request_def bearer_request_def)
qed

subsection \<open>The 3-step flow stops at the first failure\<close>

lemma getApiAccessToken_sent:
  "getApiAccessToken c v w = (res, w') \<Longrightarrow> sent w' = sent w @ [token_request c ''api'']"
  by (auto simp: getApiAccessToken_request split: sum.splits)

lemma ensure_token_sent:
  "ensure_token c v w = (res, w') \<Longrightarrow>
     sent w' = sent w \<or> sent w' = sent w @ [token_request c ''api'']"
  by (auto simp: ensure_token_def split: sum.splits bool.splits dest: getApiAccessToken_sent)

lemma carries_token_scope: "carries_token t rs \<Longrightarrow> r \<in> set rs \<Longrightarrow> scope_of r = None"
  by (cases rs rule: list.exhaust [case_product list.exhaust])
     (auto simp: carries_token_def split: list.splits)

lemma createCustomer_sent:
  assumes "createCustomer c v a w = (res, w')"
  shows "\<exists>rs. sent w' = sent w @ rs \<and> (\<forall>r \<in> set rs. scope_of r = Some ''api'' \<or> scope_of r = None)"
proof -
  from assms have "perform c v (CreateCustomer a) w = (res, w')" by simp
  from perform_after_guard [OF this]
  obtain r1 w1 rs where g: "ensure_token c v w = (r1, w1)" "sent w' = sent w1 @ rs"
      "carries_token (apiAccessToken w1) rs"
    by blast
  from ensure_token_sent [OF g(1)] g(2) carries_token_scope [OF g(3)] show ?thesis
    by (auto simp: scope_of_requests)
qed

text \<open>
  C5. \<open>initializeCustomer\<close>, in any state and against any vendor. If the API token step
  throws, or the customer creation step throws, or reading the customer id throws, or
  the customer token step throws, the flow ends there and returns
  \<^verbatim>\<open>{success: false, error: error.message}\<close> with the state that step left. When the
  failure is at customer creation, every request the flow has sent is an API-scope token
  request or a request without a scope: no customer-scoped token request was made.
\<close>

theorem initializeCustomer_fail_fast:
  "(\<forall>e w1. getApiAccessToken c v w = (Inl e, w1) \<longrightarrow>
      initializeCustomer c v a w =
        (JObj [(''success'', JBool False), (''error'', JStr (message e))], w1) \<and>
      new_requests w w1 = [token_request c ''api'']) \<and>
   (\<forall>t w1 e w2. getApiAccessToken c v w = (Inr t, w1) \<and>
        createCustomer c v a w1 = (Inl e, w2) \<longrightarrow>
      initializeCustomer c v a w =
        (JObj [(''success'', JBool False), (''error'', JStr (message e))], w2) \<and>
      (\<forall>r \<in> set (new_requests w w2). scope_of r = Some ''api'' \<or> scope_of r = None)) \<and>
   (\<forall>t w1 customer w2 e. getApiAccessToken c v w = (Inr t, w1) \<and>
        createCustomer c v a w1 = (Inr customer, w2) \<and>
        customer_id_of customer = Inl e \<longrightarrow>
      initializeCustomer c v a w =
        (JObj [(''success'', JBool False), (''error'', JStr (message e))], w2)) \<and>
   (\<forall>t w1 customer w2 customerId e w3. getApiAccessToken c v w = (Inr t, w1) \<and>
        createCustomer c v a w1 = (Inr customer, w2) \<and>
        customer_id_of customer = Inr customerId \<and>
        getCustomerAccessToken c v customerId w2 = (Inl e, w3) \<longrightarrow>
      initializeCustomer c v a w =
        (JObj [(''success'', JBool False), (''error'', JStr (message e))], w3))"
proof (intro conjI allI impI)
  fix e w1 assume h: "getApiAccessToken c v w = (Inl e, w1)"
  then show "initializeCustomer c v a w =
        (JObj [(''success'', JBool False), (''error'', JStr (message e))], w1)"
    by (simp add: initializeCustomer_def failure_def)
  from getApiAccessToken_sent [OF h] show "new_requests w w1 = [token_request c ''api'']"
    by (simp add: new_requests_def)
next
  fix t w1 e w2
  assume h: "getApiAccessToken c v w = (Inr t, w1) \<and> createCustomer c v a w1 = (Inl e, w2)"
  then show "initializeCustomer c v a w =
        (JObj [(''success'', JBool False), (''error'', JStr (message e))], w2)"
    by (simp add: initializeCustomer_def failure_def)
  from h have s1: "sent w1 = sent w @ [token_request c ''api'']"
    by (blast dest: getApiAccessToken_sent)
  from h createCustomer_sent [of c v a w1 "Inl e" w2]
  obtain rs where rs: "sent w2 = sent w1 @ rs"
      "\<forall>r \<in> set rs. scope_of r = Some ''api'' \<or> scope_of r = None"
    by blast
  show "\<forall>r \<in> set (new_requests w w2). scope_of r = Some ''api'' \<or> scope_of r = None"
    using rs s1 by (simp add: new_requests_def scope_of_requests)
next
  fix t w1 customer w2 e
  assume "getApiAccessToken c v w = (Inr t, w1) \<and>
        createCustomer c v a w1 = (Inr customer, w2) \<and>
        customer_id_of customer = Inl e"
  then show "initializeCustomer c v a w =
        (JObj [(''success'', JBool False), (''error'', JStr (message e))], w2)"
    by (simp add: initializeCustomer_def failure_def)
next
  fix t w1 customer w2 customerId e w3
  assume "getApiAccessToken c v w = (Inr t, w1) \<and>
        createCustomer c v a w1 = (Inr customer, w2) \<and>
        customer_id_of customer = Inr customerId \<and>
        getCustomerAccessToken c v customerId w2 = (Inl e, w3)"
  then show "initializeCustomer c v a w =
        (JObj [(''success'', JBool False), (''error'', JStr (message e))], w3)"
    by (simp add: initializeCustomer_def failure_def)
qed




text \<open>
  On the sample vendor with a customer endpoint that answers 401: the flow returns the
  failure object after the token request and the customer request.
\<close>

theorem initializeCustomer_fail_fast_witness:
  "(let (result, w') = initializeCustomer sample_config
                         (sample_vendor api_token_ok unauthorized customer_token_ok)
                         (JStr ''user_abc'') (initial_world 0)
    in result = JObj [(''success'', JBool False),
                      (''error'', JStr (message (HttpError 401 (body_text unauthorized))))] \<and>
       map scope_of (sent w') = [Some ''api'', None])"
proof -
  let ?V = "sample_vendor api_token_ok unauthorized customer_token_ok"
  let ?w1 = "\<lparr>apiAccessToken = JStr ''api-token-1'', apiTokenExpiry = JNum 3600100,
              clock = 100, sent = [token_request sample_config ''api'']\<rparr>"
  let ?w2 = "\<lparr>apiAccessToken = JStr ''api-token-1'', apiTokenExpiry = JNum 3600100,
              clock = 200,
              sent = [token_request sample_config ''api'',
                      customer_request sample_config (JStr ''api-token-1'') (JStr ''user_abc'')]\<rparr>"
  have step1: "getApiAccessToken sample_config ?V (initial_world 0) = (Inr (JStr ''api-token-1''), ?w1)"
    by (simp add: getApiAccessToken_request sample_token_answer settle_samples js_mul_num
        num_add_def initial_world_def)
  have hs: "invalid_header (req_headers
        (customer_request sample_config (JStr ''api-token-1'') (JStr ''user_abc''))) = None"
    by (simp add: customer_request_headers valid_header_char_def)
  have ans: "?V hist (customer_request sample_config (JStr ''api-token-1'') (JStr ''user_abc''))
      = (100, unauthorized)" for hist
    by (simp add: sample_vendor_def customer_request_def sample_config_def)
  have step2: "createCustomer sample_config ?V (JStr ''user_abc'') ?w1
                 = (Inl (HttpError 401 (body_text unauthorized)), ?w2)"
    by (simp add: createCustomer_def ensure_token_def token_needed_def js_ge_num
        makeRequest_sends [OF hs] ans settle_samples)
  from initializeCustomer_fail_fast
         [where c = sample_config and v = ?V and w = "initial_world 0" and a = "JStr ''user_abc''"]
       step1 step2
  have "initializeCustomer sample_config ?V (JStr ''user_abc'') (initial_world 0) =
          (JObj [(''success'', JBool False),
                 (''error'', JStr (message (HttpError 401 (body_text unauthorized))))], ?w2)"
    by blast
  then show ?thesis
    by (simp add: scope_of_def token_request_def customer_request_def)
qed

subsection \<open>The two workflows always fetch a new API token\<close>

lemma getCustomerAccessToken_frame:
  "getCustomerAccessToken c v cid w = (res, w') \<Longrightarrow>
     apiAccessToken w' = apiAccessToken w \<and> apiTokenExpiry w' = apiTokenExpiry w \<and>
     (\<exists>rs. sent w' = sent w @ rs)"
  by (auto simp: getCustomerAccessToken_def split: sum.splits dest!: makeRequest_frame)

lemma initializeCustomer_sent:
  "\<exists>rest. sent (snd (initializeCustomer c v a w)) = sent w @ token_request c ''api'' # rest"
proof -
  obtain r1 w1 where g: "getApiAccessToken c v w = (r1, w1)"
    by (cases "getApiAccessToken c v w")
  note s1 = getApiAccessToken_sent [OF g]
  show ?thesis
  proof (cases r1)
    case (Inl e)
    with g s1 show ?thesis by (simp add: initializeCustomer_def)
  next
    case (Inr t)
    obtain r2 w2 where cc: "createCustomer c v a w1 = (r2, w2)"
      by (cases "createCustomer c v a w1")
    from createCustomer_sent [OF cc] obtain rs where rs: "sent w2 = sent w1 @ rs" by blast
    show ?thesis
      using g Inr cc rs s1
      by (auto simp: initializeCustomer_def split: sum.splits prod.splits
          dest!: getCustomerAccessToken_frame)
  qed
qed

lemma getTokensForCustomer_sent:
  "\<exists>rest. sent (snd (getTokensForCustomer c v cid w)) = sent w @ token_request c ''api'' # rest"
proof -
  obtain r1 w1 where g: "getApiAccessToken c v w = (r1, w1)"
    by (cases "getApiAccessToken c v w")
  note s1 = getApiAccessToken_sent [OF g]
  show ?thesis
    using g s1
    by (auto simp: getTokensForCustomer_def split: sum.splits prod.splits
        dest!: getCustomerAccessToken_frame)
qed

lemma getApiAccessToken_ignores_cache:
  assumes "getApiAccessToken c v w = (Inr tok, w1)"
  shows "getApiAccessToken c v (w\<lparr>apiAccessToken := x, apiTokenExpiry := y\<rparr>) = (Inr tok, w1)"
  using assms
  by (auto simp: getApiAccessToken_request split: sum.splits)

lemma getTokensForCustomer_cache:
  assumes "getApiAccessToken c v w = (Inr tok, w1)"
  shows "apiAccessToken (snd (getTokensForCustomer c v cid w)) = apiAccessToken w1 \<and>
         apiTokenExpiry (snd (getTokensForCustomer c v cid w)) = apiTokenExpiry w1"
  using assms
  by (auto simp: getTokensForCustomer_def split: sum.splits prod.splits
      dest!: getCustomerAccessToken_frame)

lemma initializeCustomer_cache:
  assumes "getApiAccessToken c v w = (Inr tok, w1)"
    and "truthy (apiAccessToken w1)" "apiTokenExpiry w1 = JNum e" "clock w1 < e"
  shows "apiAccessToken (snd (initializeCustomer c v a w)) = apiAccessToken w1 \<and>
         apiTokenExpiry (snd (initializeCustomer c v a w)) = apiTokenExpiry w1"
proof -
  obtain r2 w2 where cc: "createCustomer c v a w1 = (r2, w2)"
    by (cases "createCustomer c v a w1")
  then have "perform c v (CreateCustomer a) w1 = (r2, w2)" by simp
  from perform_hit [OF this assms(2-4)]
  have "apiAccessToken w2 = apiAccessToken w1" "apiTokenExpiry w2 = apiTokenExpiry w1"
    by simp_all
  with assms(1) cc show ?thesis
    by (auto simp: initializeCustomer_def split: sum.splits prod.splits
        dest!: getCustomerAccessToken_frame)
qed

lemma getApiAccessToken_token:
  "getApiAccessToken c v w = (Inr tok, w1) \<Longrightarrow> apiAccessToken w1 = tok"
  by (auto simp: getApiAccessToken_request split: sum.splits)

text \<open>
  C10. In every state (so also with an unexpired cached token) and against any vendor,
  the first request \<open>initializeCustomer\<close> sends is the API-scope token request, and so is
  the first request of \<open>getTokensForCustomer\<close>: neither consults the cache. When that
  first step, \<open>getApiAccessToken\<close>, returns, the cache has been overwritten: what either
  workflow returns and the state it leaves do not depend on what the cache held before;
  after \<open>getTokensForCustomer\<close> the cache holds the new token and the expiry that step
  stored; and so it does after \<open>initializeCustomer\<close> when the new token is truthy and not
  yet expired (otherwise its customer creation step fetches yet another token). For a
  token endpoint that answers 2xx with an integer \<^verbatim>\<open>expires_in\<close> of \<open>n\<close> seconds (all within
  the range of exact integers), that expiry is the time of the response plus \<open>n * 1000\<close>.
\<close>

theorem workflows_refresh_unconditionally:
  "(\<exists>rest. new_requests w (snd (initializeCustomer c v a w)) = token_request c ''api'' # rest) \<and>
   (\<exists>rest. new_requests w (snd (getTokensForCustomer c v cid w)) = token_request c ''api'' # rest) \<and>
   (\<forall>tok w1. getApiAccessToken c v w = (Inr tok, w1) \<longrightarrow>
       apiAccessToken w1 = tok \<and>
       apiAccessToken (snd (getTokensForCustomer c v cid w)) = tok \<and>
       apiTokenExpiry (snd (getTokensForCustomer c v cid w)) = apiTokenExpiry w1 \<and>
       (\<forall>x y. initializeCustomer c v a (w\<lparr>apiAccessToken := x, apiTokenExpiry := y\<rparr>)
                 = initializeCustomer c v a w \<and>
               getTokensForCustomer c v cid (w\<lparr>apiAccessToken := x, apiTokenExpiry := y\<rparr>)
                 = getTokensForCustomer c v cid w) \<and>
       (\<forall>e. truthy tok \<and> apiTokenExpiry w1 = JNum e \<and> clock w1 < e \<longrightarrow>
          apiAccessToken (snd (initializeCustomer c v a w)) = tok \<and>
          apiTokenExpiry (snd (initializeCustomer c v a w)) = apiTokenExpiry w1)) \<and>
   (\<forall>d st data j tok n.
       v (sent w) (token_request c ''api'') = (d, Responded st data (Some j)) \<and>
       200 \<le> st \<and> st < 300 \<and> js_trim data \<noteq> [] \<and>
       get_prop j ''access_token'' = Inr tok \<and> get_prop j ''expires_in'' = Inr (JNum n) \<and>
       safe_int n \<and> safe_int (n * 1000) \<and> safe_int (clock w + int d) \<and>
       safe_int (clock w + int d + n * 1000) \<longrightarrow>
       apiAccessToken (snd (getTokensForCustomer c v cid w)) = tok \<and>
       apiTokenExpiry (snd (getTokensForCustomer c v cid w)) = JNum (clock w + int d + n * 1000) \<and>
       (truthy tok \<and> 0 < n \<longrightarrow>
          apiAccessToken (snd (initializeCustomer c v a w)) = tok \<and>
          apiTokenExpiry (snd (initializeCustomer c v a w)) = JNum (clock w + int d + n * 1000)))"
proof (intro conjI allI impI)
  from initializeCustomer_sent [of c v a w]
  show "\<exists>rest. new_requests w (snd (initializeCustomer c v a w)) = token_request c ''api'' # rest"
    by (auto simp: new_requests_def)
  from getTokensForCustomer_sent [of c v cid w]
  show "\<exists>rest. new_requests w (snd (getTokensForCustomer c v cid w)) = token_request c ''api'' # rest"
    by (auto simp: new_requests_def)
next
  fix tok w1 assume g: "getApiAccessToken c v w = (Inr tok, w1)"
  note t = getApiAccessToken_token [OF g]
  show "apiAccessToken w1 = tok" by (rule t)
  from getTokensForCustomer_cache [OF g] t
  show "apiAccessToken (snd (getTokensForCustomer c v cid w)) = tok" by simp
  from getTokensForCustomer_cache [OF g]
  show "apiTokenExpiry (snd (getTokensForCustomer c v cid w)) = apiTokenExpiry w1" by simp
  show "initializeCustomer c v a (w\<lparr>apiAccessToken := x, apiTokenExpiry := y\<rparr>)
                 = initializeCustomer c v a w" for x y
    by (simp add: initializeCustomer_def g getApiAccessToken_ignores_cache [OF g])
  show "getTokensForCustomer c v cid (w\<lparr>apiAccessToken := x, apiTokenExpiry := y\<rparr>)
                 = getTokensForCustomer c v cid w" for x y
    by (simp add: getTokensForCustomer_def g getApiAccessToken_ignores_cache [OF g])
  fix e assume h: "truthy tok \<and> apiTokenExpiry w1 = JNum e \<and> clock w1 < e"
  with t have "truthy (apiAccessToken w1)" "apiTokenExpiry w1 = JNum e" "clock w1 < e"
    by simp_all
  note ic = initializeCustomer_cache [OF g this, of a]
  from ic t show "apiAccessToken (snd (initializeCustomer c v a w)) = tok" by simp
  from ic show "apiTokenExpiry (snd (initializeCustomer c v a w)) = apiTokenExpiry w1" by simp
next
  fix d st data j tok n
  assume h: "v (sent w) (token_request c ''api'') = (d, Responded st data (Some j)) \<and>
       200 \<le> st \<and> st < 300 \<and> js_trim data \<noteq> [] \<and>
       get_prop j ''access_token'' = Inr tok \<and> get_prop j ''expires_in'' = Inr (JNum n) \<and>
       safe_int n \<and> safe_int (n * 1000) \<and> safe_int (clock w + int d) \<and>
       safe_int (clock w + int d + n * 1000)"
  define w1 where "w1 = w\<lparr>clock := clock w + int d,
                      sent := sent w @ [token_request c ''api''],
                      apiAccessToken := tok,
                      apiTokenExpiry := JNum (clock w + int d + n * 1000)\<rparr>"
  have g: "getApiAccessToken c v w = (Inr tok, w1)"
    using h getApiAccessToken_success [where v = v and w = w and c = c and d = d and st = st
        and data = data and j = j and tok = tok and n = n]
    by (simp add: w1_def)
  from getTokensForCustomer_cache [OF g]
  show "apiAccessToken (snd (getTokensForCustomer c v cid w)) = tok"
    by (simp add: w1_def)
  from getTokensForCustomer_cache [OF g]
  show "apiTokenExpiry (snd (getTokensForCustomer c v cid w)) = JNum (clock w + int d + n * 1000)"
    by (simp add: w1_def)
  assume p: "truthy tok \<and> 0 < n"
  then have "truthy (apiAccessToken w1)" "apiTokenExpiry w1 = JNum (clock w + int d + n * 1000)"
      "clock w1 < clock w + int d + n * 1000"
    by (simp_all add: w1_def)
  note ic = initializeCustomer_cache [OF g this, of a]
  from ic show "apiAccessToken (snd (initializeCustomer c v a w)) = tok"
    by (simp add: w1_def)
  from ic show "apiTokenExpiry (snd (initializeCustomer c v a w)) = JNum (clock w + int d + n * 1000)"
    by (simp add: w1_def)
qed

text \<open>
  On the sample vendor, from a state whose cached token is valid until 5000: both
  workflows replace it by \<open>api-token-1\<close> with the expiry 3601100.
\<close>

theorem workflows_refresh_unconditionally_witness:
  "apiAccessToken (snd (getTokensForCustomer sample_config
                    (sample_vendor api_token_ok customer_ok customer_token_ok)
                    (JStr ''cust-1'') (cached_world 1000))) = JStr ''api-token-1'' \<and>
   apiTokenExpiry (snd (getTokensForCustomer sample_config
                    (sample_vendor api_token_ok customer_ok customer_token_ok)
                    (JStr ''cust-1'') (cached_world 1000))) = JNum 3601100 \<and>
   apiAccessToken (snd (initializeCustomer sample_config
                    (sample_vendor api_token_ok customer_ok customer_token_ok)
                    (JStr ''user_abc'') (cached_world 1000))) = JStr ''api-token-1'' \<and>
   apiTokenExpiry (snd (initializeCustomer sample_config
                    (sample_vendor api_token_ok customer_ok customer_token_ok)
                    (JStr ''user_abc'') (cached_world 1000))) = JNum 3601100 \<and>
   hd (new_requests (cached_world 1000) (snd (initializeCustomer sample_config
                    (sample_vendor api_token_ok customer_ok customer_token_ok)
                    (JStr ''user_abc'') (cached_world 1000)))) = token_request sample_config ''api''"
proof -
  let ?V = "sample_vendor api_token_ok customer_ok customer_token_ok"
  let ?j = "JObj [(''access_token'', JStr ''api-token-1''), (''expires_in'', JNum 3600),
                  (''scope'', JStr ''api'')]"
  let ?w1 = "\<lparr>apiAccessToken = JStr ''api-token-1'', apiTokenExpiry = JNum (1000 + 100 + 3600000),
        clock = 1000 + 100, sent = [token_request sample_config ''api'']\<rparr>"
  note inst = workflows_refresh_unconditionally
    [where w = "cached_world 1000" and c = sample_config and v = ?V
       and a = "JStr ''user_abc''" and cid = "JStr ''cust-1''"]
  have answer:
     "?V (sent (cached_world 1000)) (token_request sample_config ''api'')
        = (100, Responded 200 (body_text api_token_ok) (Some ?j)) \<and>
      (200::int) \<le> 200 \<and> (200::int) < 300 \<and> js_trim (body_text api_token_ok) \<noteq> [] \<and>
      get_prop ?j ''access_token'' = Inr (JStr ''api-token-1'') \<and>
      get_prop ?j ''expires_in'' = Inr (JNum 3600) \<and>
      safe_int 3600 \<and> safe_int (3600 * 1000) \<and>
      safe_int (clock (cached_world 1000) + int 100) \<and>
      safe_int (clock (cached_world 1000) + int 100 + 3600 * 1000)"
    by (simp add: cached_world_fields sample_token_answer api_token_ok_def body_text_def
        js_trim_def is_space_def safe_int_def)
  have run: "getApiAccessToken sample_config ?V (cached_world 1000) = (Inr (JStr ''api-token-1''), ?w1)"
    by (rule sample_token_run)
  have fresh: "truthy (JStr ''api-token-1'') \<and> apiTokenExpiry ?w1 = JNum 3601100 \<and>
      clock ?w1 < 3601100"
    by simp
  have pos: "truthy (JStr ''api-token-1'') \<and> (0::int) < 3600"
    by simp
  from inst obtain rest where first:
    "new_requests (cached_world 1000)
       (snd (initializeCustomer sample_config ?V (JStr ''user_abc'') (cached_world 1000)))
     = token_request sample_config ''api'' # rest"
    by blast
  note a3 = inst [THEN conjunct2, THEN conjunct2, THEN conjunct1, rule_format, OF run]
  note a4 = inst [THEN conjunct2, THEN conjunct2, THEN conjunct2, rule_format, OF answer]
  from a3 fresh have init:
    "apiAccessToken (snd (initializeCustomer sample_config ?V (JStr ''user_abc'') (cached_world 1000)))
       = JStr ''api-token-1'' \<and>
     apiTokenExpiry (snd (initializeCustomer sample_config ?V (JStr ''user_abc'') (cached_world 1000)))
       = apiTokenExpiry ?w1"
    by blast
  from a4 pos have tokens:
    "apiAccessToken (snd (getTokensForCustomer sample_config ?V (JStr ''cust-1'') (cached_world 1000)))
       = JStr ''api-token-1'' \<and>
     apiTokenExpiry (snd (getTokensForCustomer sample_config ?V (JStr ''cust-1'') (cached_world 1000)))
       = JNum (clock (cached_world 1000) + int 100 + 3600 * 1000)"
    by blast
  from first tokens init show ?thesis
    by (simp add: cached_world_fields)
qed

subsection \<open>The link token flow retries at most once\<close>

lemma chosen_user_id_nonempty: "chosen_user_id i w \<noteq> []"
  by (simp add: chosen_user_id_def)

lemma fetch_first:
  assumes "u \<noteq> []"
  shows "fetch_create_link_token c v
           (JObj ([(''user_id'', JStr u)]
                  @ (if truthy (selected_institution i)
                     then [(''institution_id'', selected_institution i)] else []))) w =
         (case createPlaidLinkToken c v (JStr u) (selected_institution i) w of
            (Inl e, w1) \<Rightarrow> (link_token_error e, w1)
          | (Inr result, w1) \<Rightarrow> (respond 200 result, w1))"
  using assms
  by (simp add: fetch_create_link_token_def api_plaid_create_link_token_def
      selected_institution_def js_or_def)

lemma fetch_retry:
  assumes "u \<noteq> []"
  shows "fetch_create_link_token c v (JObj [(''user_id'', JStr u)]) w =
         (case createPlaidLinkToken c v (JStr u) JNull w of
            (Inl e, w1) \<Rightarrow> (link_token_error e, w1)
          | (Inr result, w1) \<Rightarrow> (respond 200 result, w1))"
  using assms
  by (simp add: fetch_create_link_token_def api_plaid_create_link_token_def js_or_def)

lemma should_retry_error:
  "should_retry (link_token_error e) = Inr (js_includes (message e) ''INVALID_INSTITUTION'')"
  by (simp add: should_retry_def link_token_error_def respond_def response_ok_def
      value_includes_def Let_def)

lemma should_retry_ok: "should_retry (respond 200 result) = Inr False"
  by (simp add: should_retry_def respond_def response_ok_def)

lemma link_token_of_error:
  "link_token_of (link_token_error e) =
     Inl (PlainError (to_string (js_or (JStr (message e)) (JStr ''Failed to create link token''))))"
  by (simp add: link_token_of_def link_token_error_def respond_def response_ok_def Let_def
      template_def js_or_def)


lemma error_body_reads:
  "get_prop (body (link_token_error e)) ''error_type''
     = Inr (JStr (if js_includes (message e) ''INVALID_INSTITUTION''
                  then ''INVALID_INSTITUTION'' else ''SERVER_ERROR''))"
  "get_prop (body (link_token_error e)) ''link_token'' = Inr JUndefined"
  by (simp_all add: link_token_error_def respond_def Let_def)

lemma link_token_guard:
  "(case get_prop (body (respond 200 data)) ''link_token'' of
      Inl e \<Rightarrow> (Inl e, w)
    | Inr x \<Rightarrow> (link_token_of (respond 200 data), w))
   = (link_token_of (respond 200 data), w)"
  by (simp add: link_token_of_def response_ok_def respond_def split: sum.splits)

lemma createPlaidLinkToken_sent:
  "createPlaidLinkToken c v u i w = (res, w') \<Longrightarrow>
     sent w' = sent w @ [link_token_request c u i] \<and> clock w' \<ge> clock w"
  by (auto simp: createPlaidLinkToken_def makeRequest_sends)

lemma retry_names_no_institution: "\<not> has_institution (link_token_request c u JNull)"
  by (simp add: has_institution_def link_token_request_def)

lemma json_wire_field:
  "map_of fs k = Some x \<Longrightarrow> x \<noteq> JUndefined \<Longrightarrow>
     map_of (map (\<lambda>(k, x). (k, json_wire x)) (filter (\<lambda>(k, x). x \<noteq> JUndefined) fs)) k
       = Some (json_wire x)"
  by (induction fs) (auto split: if_splits)

lemma link_token_of_success:
  "map_of fs ''link_token'' = Some (JStr t) \<Longrightarrow> t \<noteq> [] \<Longrightarrow>
     link_token_of (respond 200 (JObj fs)) = Inr (JStr t)"
  using json_wire_field [of fs "''link_token''" "JStr t"]
  by (simp add: link_token_of_def respond_def response_ok_def)

lemma js_includes_append: "js_includes b x \<Longrightarrow> js_includes (a @ b) x"
  by (induction a) auto

lemma body_match_is_message_match:
  "js_includes data x \<Longrightarrow> js_includes (message (HttpError st data)) x"
  using js_includes_append [of data x "''HTTP '' @ show_int st @ '': ''"]
  by simp

text \<open>
  C2. The create-link-token flow is \<open>initializePlaid\<close> calling the endpoint, which calls
  \<open>createPlaidLinkToken\<close>. For every input, state and vendor:
  if the first vendor attempt throws an error whose message contains
  \<^verbatim>\<open>INVALID_INSTITUTION\<close> (as it does when the vendor's error body contains it), one more
  vendor request is made, 500 ms later, without \<^verbatim>\<open>institution_id\<close>, and what that second
  attempt gives is the result: its error if it throws (also when that error is again
  \<^verbatim>\<open>INVALID_INSTITUTION\<close>), else the link token of its response;
  if the first attempt throws any other error, that error is the result and the first
  request is the only one sent; if the first attempt succeeds there is no second request
  either (the result is the link token of the response, or the TypeError of the log
  line when the response data is \<^verbatim>\<open>null\<close>); and no run sends more than two vendor
  requests.
\<close>

theorem initializePlaid_retries_once:
  "(\<forall>e w1. createPlaidLinkToken c v (JStr (chosen_user_id i w)) (selected_institution s) w
               = (Inl e, w1) \<and>
            js_includes (message e) ''INVALID_INSTITUTION'' \<longrightarrow>
      (case createPlaidLinkToken c v (JStr (chosen_user_id i w)) JNull
              (w1\<lparr>clock := clock w1 + 500\<rparr>) of
         (res2, w2) \<Rightarrow>
           initializePlaid c v i s w =
             ((case res2 of
                 Inl e2 \<Rightarrow>
                   Inl (PlainError (to_string (js_or (JStr (message e2))
                                                    (JStr ''Failed to create link token''))))
               | Inr data \<Rightarrow> link_token_of (respond 200 data)), w2) \<and>
           new_requests w w2 =
             [link_token_request c (JStr (chosen_user_id i w)) (selected_institution s),
              link_token_request c (JStr (chosen_user_id i w)) JNull]) \<and>
      \<not> has_institution (link_token_request c (JStr (chosen_user_id i w)) JNull)) \<and>
   (\<forall>e w1. createPlaidLinkToken c v (JStr (chosen_user_id i w)) (selected_institution s) w
               = (Inl e, w1) \<and>
            \<not> js_includes (message e) ''INVALID_INSTITUTION'' \<longrightarrow>
      initializePlaid c v i s w =
        (Inl (PlainError (to_string (js_or (JStr (message e))
                                           (JStr ''Failed to create link token'')))), w1) \<and>
      new_requests w w1 =
        [link_token_request c (JStr (chosen_user_id i w)) (selected_institution s)]) \<and>
   (\<forall>data w1. createPlaidLinkToken c v (JStr (chosen_user_id i w)) (selected_institution s) w
               = (Inr data, w1) \<longrightarrow>
      initializePlaid c v i s w =
        ((case get_prop (body (respond 200 data)) ''error_type'' of
            Inl e \<Rightarrow> Inl e
          | Inr _ \<Rightarrow> link_token_of (respond 200 data)), w1) \<and>
      new_requests w w1 =
        [link_token_request c (JStr (chosen_user_id i w)) (selected_institution s)]) \<and>
   length (new_requests w (snd (initializePlaid c v i s w))) \<le> 2 \<and>
   (\<forall>fs t. map_of fs ''link_token'' = Some (JStr t) \<and> t \<noteq> [] \<longrightarrow>
      link_token_of (respond 200 (JObj fs)) = Inr (JStr t)) \<and>
   (\<forall>st data. js_includes data ''INVALID_INSTITUTION'' \<longrightarrow>
      js_includes (message (HttpError st data)) ''INVALID_INSTITUTION'')"
proof -
  let ?u = "chosen_user_id i w"
  let ?sel = "selected_institution s"
  note u = chosen_user_id_nonempty [of i w]
  have unfold: "initializePlaid c v i s w =
     (case createPlaidLinkToken c v (JStr ?u) ?sel w of
        (Inl e, w1) \<Rightarrow>
          if js_includes (message e) ''INVALID_INSTITUTION'' then
            (case createPlaidLinkToken c v (JStr ?u) JNull (w1\<lparr>clock := clock w1 + 500\<rparr>) of
               (Inl e2, w2) \<Rightarrow> (link_token_of (link_token_error e2), w2)
             | (Inr data, w2) \<Rightarrow> (link_token_of (respond 200 data), w2))
          else (link_token_of (link_token_error e), w1)
      | (Inr data, w1) \<Rightarrow>
          ((case get_prop (body (respond 200 data)) ''error_type'' of
              Inl e \<Rightarrow> Inl e
            | Inr _ \<Rightarrow> link_token_of (respond 200 data)), w1))"
  proof -
    obtain r1 w1 where r1: "createPlaidLinkToken c v (JStr ?u) ?sel w = (r1, w1)"
      by (cases "createPlaidLinkToken c v (JStr ?u) ?sel w")
    obtain r2 w2 where r2:
      "createPlaidLinkToken c v (JStr ?u) JNull (w1\<lparr>clock := clock w1 + 500\<rparr>) = (r2, w2)"
      by (cases "createPlaidLinkToken c v (JStr ?u) JNull (w1\<lparr>clock := clock w1 + 500\<rparr>)")
    show ?thesis
      unfolding initializePlaid_def Let_def fetch_first [OF u] fetch_retry [OF u] r1
      by (cases r1; cases r2)
         (simp_all add: r2 should_retry_error should_retry_ok error_body_reads
            link_token_guard split: sum.splits)
  qed
  have part1: "(case createPlaidLinkToken c v (JStr ?u) JNull (w1\<lparr>clock := clock w1 + 500\<rparr>) of
         (res2, w2) \<Rightarrow>
           initializePlaid c v i s w =
             ((case res2 of
                 Inl e2 \<Rightarrow>
                   Inl (PlainError (to_string (js_or (JStr (message e2))
                                                    (JStr ''Failed to create link token''))))
               | Inr data \<Rightarrow> link_token_of (respond 200 data)), w2) \<and>
           new_requests w w2 =
             [link_token_request c (JStr ?u) ?sel, link_token_request c (JStr ?u) JNull])"
    if h: "createPlaidLinkToken c v (JStr ?u) ?sel w = (Inl e, w1) \<and>
           js_includes (message e) ''INVALID_INSTITUTION''" for e w1
  proof -
    obtain res2 w2 where r2:
      "createPlaidLinkToken c v (JStr ?u) JNull (w1\<lparr>clock := clock w1 + 500\<rparr>) = (res2, w2)"
      by (cases "createPlaidLinkToken c v (JStr ?u) JNull (w1\<lparr>clock := clock w1 + 500\<rparr>)")
    from h have s1: "sent w1 = sent w @ [link_token_request c (JStr ?u) ?sel]"
      by (blast dest: createPlaidLinkToken_sent)
    from createPlaidLinkToken_sent [OF r2] s1
    have s2: "sent w2 = sent w @ [link_token_request c (JStr ?u) ?sel,
                                  link_token_request c (JStr ?u) JNull]"
      by simp
    show ?thesis
      using h by (simp add: unfold r2 new_requests_append [OF s2] link_token_of_error
          split: sum.splits)
  qed
  have part2: "initializePlaid c v i s w =
        (Inl (PlainError (to_string (js_or (JStr (message e))
                                           (JStr ''Failed to create link token'')))), w1) \<and>
      new_requests w w1 = [link_token_request c (JStr ?u) ?sel]"
    if h: "createPlaidLinkToken c v (JStr ?u) ?sel w = (Inl e, w1) \<and>
           \<not> js_includes (message e) ''INVALID_INSTITUTION''" for e w1
  proof -
    from h have s1: "sent w1 = sent w @ [link_token_request c (JStr ?u) ?sel]"
      by (blast dest: createPlaidLinkToken_sent)
    show ?thesis
      using h by (simp add: unfold new_requests_append [OF s1] link_token_of_error)
  qed
  have part3: "initializePlaid c v i s w =
        ((case get_prop (body (respond 200 data)) ''error_type'' of
            Inl e \<Rightarrow> Inl e
          | Inr _ \<Rightarrow> link_token_of (respond 200 data)), w1) \<and>
      new_requests w w1 = [link_token_request c (JStr ?u) ?sel]"
    if h: "createPlaidLinkToken c v (JStr ?u) ?sel w = (Inr data, w1)" for data w1
  proof -
    from h have s1: "sent w1 = sent w @ [link_token_request c (JStr ?u) ?sel]"
      by (blast dest: createPlaidLinkToken_sent)
    show ?thesis
      using h by (simp add: unfold new_requests_append [OF s1])
  qed
  have part4: "length (new_requests w (snd (initializePlaid c v i s w))) \<le> 2"
  proof -
    obtain r1 w1 where r1: "createPlaidLinkToken c v (JStr ?u) ?sel w = (r1, w1)"
      by (cases "createPlaidLinkToken c v (JStr ?u) ?sel w")
    show ?thesis
    proof (cases r1)
      case (Inr data)
      with part3 [of data w1] r1 show ?thesis by simp
    next
      case (Inl e)
      show ?thesis
      proof (cases "js_includes (message e) ''INVALID_INSTITUTION''")
        case False
        with part2 [of e w1] r1 Inl show ?thesis by simp
      next
        case True
        with part1 [of e w1] r1 Inl show ?thesis
          by (auto split: prod.splits)
      qed
    qed
  qed
  show ?thesis
  proof (intro conjI allI impI)
    fix e w1
    assume "createPlaidLinkToken c v (JStr ?u) ?sel w = (Inl e, w1) \<and>
            \<not> js_includes (message e) ''INVALID_INSTITUTION''"
    from part2 [OF this]
    show "initializePlaid c v i s w =
        (Inl (PlainError (to_string (js_or (JStr (message e))
                                           (JStr ''Failed to create link token'')))), w1)"
      and "new_requests w w1 = [link_token_request c (JStr ?u) ?sel]"
      by simp_all
  next
    fix data w1
    assume "createPlaidLinkToken c v (JStr ?u) ?sel w = (Inr data, w1)"
    from part3 [OF this]
    show "initializePlaid c v i s w =
        ((case get_prop (body (respond 200 data)) ''error_type'' of
            Inl e \<Rightarrow> Inl e
          | Inr _ \<Rightarrow> link_token_of (respond 200 data)), w1)"
      and "new_requests w w1 = [link_token_request c (JStr ?u) ?sel]"
      by simp_all
  next
    fix fs t
    assume "map_of fs ''link_token'' = Some (JStr t) \<and> t \<noteq> []"
    then show "link_token_of (respond 200 (JObj fs)) = Inr (JStr t)"
      by (simp add: link_token_of_success)
  next
    fix st data
    assume "js_includes data ''INVALID_INSTITUTION''"
    then show "js_includes (message (HttpError st data)) ''INVALID_INSTITUTION''"
      by (rule body_match_is_message_match)
  qed (rule part1 part4 retry_names_no_institution; assumption?)+
qed


theorem initializePlaid_retries_once_witness:
  "(let (res, w') = initializePlaid sample_config
                      (sample_vendor api_token_ok customer_ok customer_token_ok)
                      ''u1'' ''ins_109508'' (initial_world 0)
    in res = Inr (JStr ''link-sandbox-1'') \<and> map has_institution (sent w') = [True, False]) \<and>
   (let (res, w') = initializePlaid sample_config always_invalid
                      ''u1'' ''ins_109508'' (initial_world 0)
    in res = Inl (PlainError (message (HttpError 400 (body_text invalid_institution)))) \<and>
       map has_institution (sent w') = [True, False])"
proof -
  let ?V = "sample_vendor api_token_ok customer_ok customer_token_ok"
  let ?w0 = "initial_world 0"
  let ?r1 = "link_token_request sample_config (JStr ''u1'') (JStr ''ins_109508'')"
  let ?r2 = "link_token_request sample_config (JStr ''u1'') JNull"
  let ?w1 = "\<lparr>apiAccessToken = JNull, apiTokenExpiry = JNull, clock = 100, sent = [?r1]\<rparr>"
  let ?w2 = "\<lparr>apiAccessToken = JNull, apiTokenExpiry = JNull, clock = 700, sent = [?r1, ?r2]\<rparr>"
  let ?e = "HttpError 400 (body_text invalid_institution)"
  have u: "chosen_user_id ''u1'' ?w0 = ''u1''"
    by (simp add: chosen_user_id_def js_trim_def is_space_def)
  have sel: "selected_institution ''ins_109508'' = JStr ''ins_109508''"
    by (simp add: selected_institution_def)
  have inst: "has_institution ?r1" "\<not> has_institution ?r2"
    by (simp_all add: has_institution_def link_token_request_def sample_config_def)
  have ans: "?V hist ?r1 = (100, invalid_institution)" "?V hist ?r2 = (100, link_token_ok)" for hist
    by (simp_all add: sample_vendor_def has_institution_def link_token_request_def sample_config_def)
  have inc: "js_includes (message ?e) ''INVALID_INSTITUTION''"
    by (simp add: body_text_def invalid_institution_def show_int_def show_nat.simps
        digit_char_def)
  have st: "settle invalid_institution = Inl ?e"
           "settle link_token_ok = Inr (JObj [(''link_token'', JStr ''link-sandbox-1'')])"
    by (simp_all add: settle_def invalid_institution_def link_token_ok_def body_text_def
        js_trim_def is_space_def)
  have first: "createPlaidLinkToken sample_config ?V (JStr (chosen_user_id ''u1'' ?w0))
                 (selected_institution ''ins_109508'') ?w0 = (Inl ?e, ?w1)"
    unfolding u sel
    by (simp add: createPlaidLinkToken_def makeRequest_def ans st initial_world_def)
  have first': "createPlaidLinkToken sample_config always_invalid (JStr (chosen_user_id ''u1'' ?w0))
                 (selected_institution ''ins_109508'') ?w0 = (Inl ?e, ?w1)"
    unfolding u sel
    by (simp add: createPlaidLinkToken_def makeRequest_def always_invalid_def st
        initial_world_def)
  have second: "createPlaidLinkToken sample_config ?V (JStr (chosen_user_id ''u1'' ?w0)) JNull
                  (?w1\<lparr>clock := clock ?w1 + 500\<rparr>)
                = (Inr (JObj [(''link_token'', JStr ''link-sandbox-1'')]), ?w2)"
    unfolding u
    by (simp add: createPlaidLinkToken_def makeRequest_def ans st)
  have second': "createPlaidLinkToken sample_config always_invalid
                  (JStr (chosen_user_id ''u1'' ?w0)) JNull (?w1\<lparr>clock := clock ?w1 + 500\<rparr>)
                = (Inl ?e, ?w2)"
    unfolding u
    by (simp add: createPlaidLinkToken_def makeRequest_def always_invalid_def st)
  have nonempty: "message ?e \<noteq> []"
    by (simp add: show_int_def)
  have tok: "link_token_of (respond 200 (JObj [(''link_token'', JStr ''link-sandbox-1'')]))
               = Inr (JStr ''link-sandbox-1'')"
    by (simp add: link_token_of_def respond_def response_ok_def)
  note a = initializePlaid_retries_once
             [where c = sample_config and v = ?V and i = "''u1''" and s = "''ins_109508''"
                and w = ?w0, THEN conjunct1, rule_format, OF conjI [OF first inc]]
  note b = initializePlaid_retries_once
             [where c = sample_config and v = always_invalid and i = "''u1''"
                and s = "''ins_109508''" and w = ?w0, THEN conjunct1, rule_format,
              OF conjI [OF first' inc]]
  from a have A: "initializePlaid sample_config ?V ''u1'' ''ins_109508'' ?w0
                    = (Inr (JStr ''link-sandbox-1''), ?w2)"
    unfolding second by (simp add: tok)
  from b nonempty have B: "initializePlaid sample_config always_invalid ''u1'' ''ins_109508'' ?w0
                    = (Inl (PlainError (message ?e)), ?w2)"
    unfolding second' by (simp add: js_or_def)
  show ?thesis
    unfolding A B by (simp add: inst)
qed

subsection \<open>The link token endpoint does not retry\<close>

lemma link_token_error_status:
  "link_token_error e =
     \<lparr>status = (if js_includes (message e) ''INVALID_INSTITUTION'' then 400 else 500),
      body = JObj [(''error'', JStr (message e)),
                   (''error_type'',
                    JStr (if js_includes (message e) ''INVALID_INSTITUTION''
                          then ''INVALID_INSTITUTION'' else ''SERVER_ERROR''))]\<rparr>"
  by (simp add: link_token_error_def respond_def Let_def)

lemma sample_vendor_rejects:
  "createPlaidLinkToken sample_config (sample_vendor api_token_ok customer_ok customer_token_ok)
     (JStr ''u1'') (JStr ''ins_109508'') (initial_world 0)
   = (Inl (HttpError 400 (body_text invalid_institution)),
      \<lparr>apiAccessToken = JNull, apiTokenExpiry = JNull, clock = 100,
        sent = [link_token_request sample_config (JStr ''u1'') (JStr ''ins_109508'')]\<rparr>)"
proof -
  have ans: "sample_vendor api_token_ok customer_ok customer_token_ok []
               (link_token_request sample_config (JStr ''u1'') (JStr ''ins_109508''))
             = (100, invalid_institution)"
    by (simp add: sample_vendor_def has_institution_def link_token_request_def sample_config_def)
  have st: "settle invalid_institution = Inl (HttpError 400 (body_text invalid_institution))"
    by (simp add: settle_def invalid_institution_def body_text_def)
  show ?thesis
    by (simp add: createPlaidLinkToken_def makeRequest_def ans st initial_world_def)
qed

lemma invalid_institution_matches:
  "js_includes (message (HttpError 400 (body_text invalid_institution))) ''INVALID_INSTITUTION''"
  by (simp add: body_text_def invalid_institution_def show_int_def show_nat.simps digit_char_def)

text \<open>
  C3, as the code has it. The endpoint makes one vendor request per call. When that
  request throws an error whose message contains \<^verbatim>\<open>INVALID_INSTITUTION\<close>, the endpoint
  answers with status 400 and the body
  \<^verbatim>\<open>{error: error.message, error_type: "INVALID_INSTITUTION"}\<close>, having sent that one
  request only. The retry without the institution is the second call of the endpoint
  that \<open>initializePlaid\<close> makes.
\<close>

theorem create_link_token_endpoint_no_retry:
  assumes "destructure b ''user_id'' = Inr user_id"
    and "destructure b ''institution_id'' = Inr institution_id"
    and "createPlaidLinkToken c v (js_or user_id (JStr (''user_'' @ show_int (clock w))))
           (js_or institution_id JNull) w = (Inl e, w1)"
    and "js_includes (message e) ''INVALID_INSTITUTION''"
  shows "api_plaid_create_link_token c v (Inr b) w =
           (\<lparr>status = 400,
             body = JObj [(''error'', JStr (message e)),
                          (''error_type'', JStr ''INVALID_INSTITUTION'')]\<rparr>, w1) \<and>
         new_requests w w1 =
           [link_token_request c (js_or user_id (JStr (''user_'' @ show_int (clock w))))
              (js_or institution_id JNull)]"
proof -
  from createPlaidLinkToken_sent [OF assms(3)]
  have "new_requests w w1 =
           [link_token_request c (js_or user_id (JStr (''user_'' @ show_int (clock w))))
              (js_or institution_id JNull)]"
    by (simp add: new_requests_def)
  with assms show ?thesis
    by (simp add: api_plaid_create_link_token_def link_token_error_status)
qed

theorem create_link_token_endpoint_no_retry_witness:
  "(let (r, w') = api_plaid_create_link_token sample_config
                    (sample_vendor api_token_ok customer_ok customer_token_ok)
                    (Inr (JObj [(''user_id'', JStr ''u1''),
                                (''institution_id'', JStr ''ins_109508'')]))
                    (initial_world 0)
    in status r = 400 \<and>
       get_prop (body r) ''error_type'' = Inr (JStr ''INVALID_INSTITUTION'') \<and>
       length (sent w') = 1)"
proof -
  have p: "destructure (JObj [(''user_id'', JStr ''u1''), (''institution_id'', JStr ''ins_109508'')])
             ''user_id'' = Inr (JStr ''u1'')"
          "destructure (JObj [(''user_id'', JStr ''u1''), (''institution_id'', JStr ''ins_109508'')])
             ''institution_id'' = Inr (JStr ''ins_109508'')"
    by simp_all
  have run: "createPlaidLinkToken sample_config (sample_vendor api_token_ok customer_ok customer_token_ok)
     (js_or (JStr ''u1'') (JStr (''user_'' @ show_int (clock (initial_world 0)))))
     (js_or (JStr ''ins_109508'') JNull) (initial_world 0)
   = (Inl (HttpError 400 (body_text invalid_institution)),
      \<lparr>apiAccessToken = JNull, apiTokenExpiry = JNull, clock = 100,
        sent = [link_token_request sample_config (JStr ''u1'') (JStr ''ins_109508'')]\<rparr>)"
    using sample_vendor_rejects by (simp add: js_or_def)
  from create_link_token_endpoint_no_retry [OF p run invalid_institution_matches]
  show ?thesis
    by simp
qed

text \<open>
  C3 as stated fails: on the sample vendor, which rejects the request naming
  \<open>ins_109508\<close> with \<^verbatim>\<open>INVALID_INSTITUTION\<close> and would accept one naming no institution,
  the endpoint's answer to the single call has status 400 and no \<^verbatim>\<open>link_token\<close>.
\<close>

theorem create_link_token_endpoint_counterexample:
  "fst (createPlaidLinkToken sample_config (sample_vendor api_token_ok customer_ok customer_token_ok)
          (JStr ''u1'') (JStr ''ins_109508'') (initial_world 0))
     = Inl (HttpError 400 (body_text invalid_institution)) \<and>
   js_includes (body_text invalid_institution) ''INVALID_INSTITUTION'' \<and>
   status (fst (api_plaid_create_link_token sample_config
                  (sample_vendor api_token_ok customer_ok customer_token_ok)
                  (Inr (JObj [(''user_id'', JStr ''u1''),
                              (''institution_id'', JStr ''ins_109508'')]))
                  (initial_world 0))) = 400 \<and>
   get_prop (body (fst (api_plaid_create_link_token sample_config
                          (sample_vendor api_token_ok customer_ok customer_token_ok)
                          (Inr (JObj [(''user_id'', JStr ''u1''),
                                      (''institution_id'', JStr ''ins_109508'')]))
                          (initial_world 0)))) ''link_token'' = Inr JUndefined"
proof -
  have run: "api_plaid_create_link_token sample_config
               (sample_vendor api_token_ok customer_ok customer_token_ok)
               (Inr (JObj [(''user_id'', JStr ''u1''), (''institution_id'', JStr ''ins_109508'')]))
               (initial_world 0)
             = (link_token_error (HttpError 400 (body_text invalid_institution)),
                \<lparr>apiAccessToken = JNull, apiTokenExpiry = JNull, clock = 100,
                  sent = [link_token_request sample_config (JStr ''u1'') (JStr ''ins_109508'')]\<rparr>)"
    using sample_vendor_rejects by (simp add: api_plaid_create_link_token_def js_or_def)
  have inc: "js_includes (body_text invalid_institution) ''INVALID_INSTITUTION''"
    by (simp add: body_text_def invalid_institution_def)
  have err: "link_token_error (HttpError 400 (body_text invalid_institution)) =
               \<lparr>status = 400,
                 body = JObj [(''error'', JStr (message (HttpError 400 (body_text invalid_institution)))),
                              (''error_type'', JStr ''INVALID_INSTITUTION'')]\<rparr>"
    by (simp only: link_token_error_status invalid_institution_matches if_True)
  show ?thesis
    unfolding run err
    by (simp add: sample_vendor_rejects inc)
qed

subsection \<open>How the endpoints report failures\<close>







subsection \<open>The default date range of the transactions endpoint\<close>

lemma digit_char_not_T:
  assumes "d < 10"
  shows "digit_char d \<noteq> CHR ''T''"
proof
  assume "digit_char d = CHR ''T''"
  then have "(of_char (char_of (48 + d)) :: nat) = of_char (CHR ''T'')"
    by (simp add: digit_char_def)
  then have "(48 + d) mod 256 = 84"
    by simp
  with assms show False
    by simp
qed

lemma show_nat_no_T: "CHR ''T'' \<notin> set (show_nat n)"
proof (induction n rule: show_nat.induct)
  case (1 n)
  show ?case
  proof (cases "n < 10")
    case True
    then show ?thesis
      using digit_char_not_T [of n] by (subst show_nat.simps) auto
  next
    case False
    with 1 digit_char_not_T [of "n mod 10"] show ?thesis
      by (subst show_nat.simps) auto
  qed
qed

lemma show_int_no_T: "CHR ''T'' \<notin> set (show_int i)"
  by (simp add: show_int_def show_nat_no_T)

lemma pad_left_no_T: "CHR ''T'' \<notin> set s \<Longrightarrow> CHR ''T'' \<notin> set (pad_left k s)"
  by auto

lemma date_string_no_T: "CHR ''T'' \<notin> set (date_string d)"
  by (auto simp: date_string_def show_year_def show_int_no_T split: prod.splits)

lemma takeWhile_before: "x \<notin> set a \<Longrightarrow> takeWhile (\<lambda>ch. ch \<noteq> x) (a @ x # b) = a"
  by (induction a) auto

lemma iso_date_is_date_string: "iso_date t = date_string (t div ms_per_day)"
  using takeWhile_before [OF date_string_no_T, of "t div ms_per_day" "time_string (t mod ms_per_day) @ ''Z''"]
  by (simp add: iso_date_def toISOString_def)

lemma thirty_days_earlier:
  "(t - 30 * 24 * 60 * 60 * 1000) div ms_per_day = t div ms_per_day - 30"
proof -
  have "t - 30 * 24 * 60 * 60 * 1000 = t + (- 30) * ms_per_day"
    by (simp add: ms_per_day_def)
  then show ?thesis
    by (simp add: ms_per_day_def)
qed


lemma transactions_wire_dates:
  "json_field (transactions_request c tok (JStr s) (JStr e)) ''start_date'' = Some (JStr s) \<and>
   json_field (transactions_request c tok (JStr s) (JStr e)) ''end_date'' = Some (JStr e)"
  by (simp add: json_field_def transactions_request_def)

lemma sample_dates:
  "date_string (1793709296789 div ms_per_day) = ''2026-11-03''"
  "date_string (1793709296789 div ms_per_day - 30) = ''2026-10-04''"
  by code_simp+

text \<open>
  C8. \<^verbatim>\<open>POST /api/plaid/transactions\<close> with an access token, in any state and against
  any vendor, sends one vendor request. Its \<^verbatim>\<open>end_date\<close> is the request's own when that
  is truthy, else the UTC calendar date of the current day; its \<^verbatim>\<open>start_date\<close> is the
  request's own when that is truthy, else the calendar date of the day 30 days earlier,
  which is what \<^verbatim>\<open>new Date(Date.now() - 30*24*60*60*1000)\<close> formats to. Both defaults are
  \<^verbatim>\<open>YYYY-MM-DD\<close> strings (the text of \<^verbatim>\<open>toISOString()\<close> before its \<^verbatim>\<open>T\<close>). A field that
  the request omits reads as \<^verbatim>\<open>undefined\<close>, so it takes the default, and a string date
  arrives at the vendor unchanged.
\<close>

theorem transactions_default_window:
  assumes "destructure b ''access_token'' = Inr tok" and "truthy tok"
    and "destructure b ''start_date'' = Inr start_date"
    and "destructure b ''end_date'' = Inr end_date"
  shows "new_requests w (snd (api_plaid_transactions c v (Inr b) w)) =
           [transactions_request c tok
              (if truthy start_date then start_date
               else JStr (date_string (clock w div ms_per_day - 30)))
              (if truthy end_date then end_date
               else JStr (date_string (clock w div ms_per_day)))] \<and>
         iso_date (clock w) = date_string (clock w div ms_per_day) \<and>
         iso_date (clock w - 30 * 24 * 60 * 60 * 1000) = date_string (clock w div ms_per_day - 30) \<and>
         (\<forall>fs. b = JObj fs \<and> map_of fs ''start_date'' = None \<longrightarrow> \<not> truthy start_date) \<and>
         (\<forall>fs. b = JObj fs \<and> map_of fs ''end_date'' = None \<longrightarrow> \<not> truthy end_date) \<and>
         (\<forall>s e. json_field (transactions_request c tok (JStr s) (JStr e)) ''start_date''
                   = Some (JStr s) \<and>
                 json_field (transactions_request c tok (JStr s) (JStr e)) ''end_date''
                   = Some (JStr e))"
proof -
  have d1: "iso_date (clock w) = date_string (clock w div ms_per_day)"
    by (rule iso_date_is_date_string)
  have d2: "iso_date (clock w - 30 * 24 * 60 * 60 * 1000) = date_string (clock w div ms_per_day - 30)"
    by (simp only: iso_date_is_date_string thirty_days_earlier)
  have req: "new_requests w (snd (api_plaid_transactions c v (Inr b) w)) =
           [transactions_request c tok
              (js_or start_date (JStr (iso_date (clock w - 30 * 24 * 60 * 60 * 1000))))
              (js_or end_date (JStr (iso_date (clock w))))]"
    using assms
    by (simp add: api_plaid_transactions_def getPlaidTransactions_def makeRequest_def
        new_requests_def Let_def split: prod.splits sum.splits)
  have om: "\<not> truthy start_date" if "b = JObj fs \<and> map_of fs ''start_date'' = None" for fs
    using that assms(3) by auto
  have om': "\<not> truthy end_date" if "b = JObj fs \<and> map_of fs ''end_date'' = None" for fs
    using that assms(4) by auto
  show ?thesis
    using req om om' transactions_wire_dates
    unfolding d1 d2 js_or_def by blast
qed

theorem transactions_default_window_witness:
  "new_requests (initial_world 1793709296789)
     (snd (api_plaid_transactions sample_config
             (sample_vendor api_token_ok customer_ok customer_token_ok)
             (Inr (JObj [(''access_token'', JStr ''access-sandbox-1'')]))
             (initial_world 1793709296789)))
     = [transactions_request sample_config (JStr ''access-sandbox-1'')
          (JStr ''2026-10-04'') (JStr ''2026-11-03'')] \<and>
   new_requests (initial_world 1793709296789)
     (snd (api_plaid_transactions sample_config
             (sample_vendor api_token_ok customer_ok customer_token_ok)
             (Inr (JObj [(''access_token'', JStr ''access-sandbox-1''),
                         (''start_date'', JStr ''2026-01-01''),
                         (''end_date'', JStr ''2026-01-31'')]))
             (initial_world 1793709296789)))
     = [transactions_request sample_config (JStr ''access-sandbox-1'')
          (JStr ''2026-01-01'') (JStr ''2026-01-31'')]"
proof -
  have cw: "clock (initial_world 1793709296789) = 1793709296789"
    by (simp add: initial_world_def)
  have a: "destructure (JObj [(''access_token'', JStr ''access-sandbox-1'')]) ''access_token''
             = Inr (JStr ''access-sandbox-1'')"
          "truthy (JStr ''access-sandbox-1'')"
          "destructure (JObj [(''access_token'', JStr ''access-sandbox-1'')]) ''start_date''
             = Inr JUndefined"
          "destructure (JObj [(''access_token'', JStr ''access-sandbox-1'')]) ''end_date''
             = Inr JUndefined"
    by simp_all
  have b: "destructure (JObj [(''access_token'', JStr ''access-sandbox-1''),
                         (''start_date'', JStr ''2026-01-01''),
                         (''end_date'', JStr ''2026-01-31'')]) ''access_token''
             = Inr (JStr ''access-sandbox-1'')"
          "truthy (JStr ''access-sandbox-1'')"
          "destructure (JObj [(''access_token'', JStr ''access-sandbox-1''),
                         (''start_date'', JStr ''2026-01-01''),
                         (''end_date'', JStr ''2026-01-31'')]) ''start_date''
             = Inr (JStr ''2026-01-01'')"
          "destructure (JObj [(''access_token'', JStr ''access-sandbox-1''),
                         (''start_date'', JStr ''2026-01-01''),
                         (''end_date'', JStr ''2026-01-31'')]) ''end_date''
             = Inr (JStr ''2026-01-31'')"
    by simp_all
  from transactions_default_window [OF a, of "initial_world 1793709296789" sample_config
         "sample_vendor api_token_ok customer_ok customer_token_ok"]
       transactions_default_window [OF b, of "initial_world 1793709296789" sample_config
         "sample_vendor api_token_ok customer_ok customer_token_ok"]
  show ?thesis
    unfolding cw sample_dates by simp
qed

subsection \<open>A customer response without an identifier\<close>

lemma carries_token_unscoped:
  "carries_token t rs \<Longrightarrow> length (filter (\<lambda>r. scope_of r = None) rs) \<le> 1"
  by (cases rs rule: list.exhaust [case_product list.exhaust])
     (auto simp: carries_token_def split: list.splits)

lemma sample_customer_answer:
  "sample_vendor a cu ct hist (customer_request sample_config t u) = (100, cu)"
  by (simp add: sample_vendor_def customer_request_def sample_config_def)

lemma sample_customer_token_answer:
  "s \<noteq> ''api'' \<Longrightarrow> sample_vendor a cu ct hist (token_request sample_config s) = (100, ct)"
  by (simp add: sample_vendor_def token_request_def sample_config_def scope_of_def)

lemma settle_customer_samples:
  "settle customer_without_id = Inr (JObj [(''app_user_id'', JStr ''user_abc'')])"
  "settle customer_token_ok =
     Inr (JObj [(''access_token'', JStr ''cust-token-1''), (''expires_in'', JNum 3600),
                (''scope'', JStr ''customer.cust-1'')])"
  by (simp_all add: settle_def customer_without_id_def customer_token_ok_def js_trim_def
      is_space_def)

lemma sample_first_token:
  "getApiAccessToken sample_config (sample_vendor api_token_ok cu ct) (initial_world 0) =
     (Inr (JStr ''api-token-1''),
      \<lparr>apiAccessToken = JStr ''api-token-1'', apiTokenExpiry = JNum 3600100,
        clock = 100, sent = [token_request sample_config ''api'']\<rparr>)"
  by (simp add: getApiAccessToken_request sample_token_answer settle_samples js_mul_num
      num_add_def initial_world_def)

text \<open>
  The claim as stated fails on a vendor whose customer creation answers 200 with
  \<^verbatim>\<open>{"app_user_id":"user_abc"}\<close>: \<open>createCustomer\<close> returns that object as a normal
  result; \<open>initializeCustomer\<close> reads \<^verbatim>\<open>undefined\<close> as the customer id, goes on to request
  a token for the scope \<^verbatim>\<open>customer.undefined\<close>, and reports success.
\<close>

theorem createCustomer_missing_id_counterexample:
  "fst (createCustomer sample_config (sample_vendor api_token_ok customer_without_id customer_token_ok)
          (JStr ''user_abc'') (initial_world 0))
     = Inr (JObj [(''app_user_id'', JStr ''user_abc'')]) \<and>
   customer_id_of (JObj [(''app_user_id'', JStr ''user_abc'')]) = Inr JUndefined \<and>
   map scope_of
     (sent (snd (initializeCustomer sample_config
                   (sample_vendor api_token_ok customer_without_id customer_token_ok)
                   (JStr ''user_abc'') (initial_world 0))))
     = [Some ''api'', None, Some ''customer.undefined''] \<and>
   get_prop (fst (initializeCustomer sample_config
                    (sample_vendor api_token_ok customer_without_id customer_token_ok)
                    (JStr ''user_abc'') (initial_world 0))) ''success'' = Inr (JBool True)"
proof -
  let ?V = "sample_vendor api_token_ok customer_without_id customer_token_ok"
  let ?data = "JObj [(''app_user_id'', JStr ''user_abc'')]"
  let ?t1 = "token_request sample_config ''api''"
  let ?c = "customer_request sample_config (JStr ''api-token-1'') (JStr ''user_abc'')"
  let ?t2 = "token_request sample_config ''customer.undefined''"
  let ?w1 = "\<lparr>apiAccessToken = JStr ''api-token-1'', apiTokenExpiry = JNum 3600100,
              clock = 100, sent = [?t1]\<rparr>"
  let ?w2 = "\<lparr>apiAccessToken = JStr ''api-token-1'', apiTokenExpiry = JNum 3600100,
              clock = 200, sent = [?t1, ?c]\<rparr>"
  let ?w3 = "\<lparr>apiAccessToken = JStr ''api-token-1'', apiTokenExpiry = JNum 3600100,
              clock = 300, sent = [?t1, ?c, ?t2]\<rparr>"
  have hs: "invalid_header (req_headers ?c) = None"
    by (simp add: customer_request_headers valid_header_char_def)
  have direct: "createCustomer sample_config ?V (JStr ''user_abc'') (initial_world 0)
                  = (Inr ?data, ?w2)"
    by (simp add: createCustomer_def ensure_token_def token_needed_def initial_world_def
        sample_first_token [unfolded initial_world_def] makeRequest_sends [OF hs]
        sample_customer_answer settle_customer_samples after_logging_def)
  have step2: "createCustomer sample_config ?V (JStr ''user_abc'') ?w1 = (Inr ?data, ?w2)"
    by (simp add: createCustomer_def ensure_token_def token_needed_def js_ge_num
        makeRequest_sends [OF hs] sample_customer_answer settle_customer_samples
        after_logging_def)
  have cid: "customer_id_of ?data = Inr JUndefined"
    by (simp add: customer_id_of_def)
  have step3: "getCustomerAccessToken sample_config ?V JUndefined ?w2
                 = (Inr (JObj [(''access_token'', JStr ''cust-token-1''),
                      (''expires_in'', JNum 3600), (''scope'', JStr ''customer.cust-1'')]), ?w3)"
    by (simp add: getCustomerAccessToken_def template_def makeRequest_sends
        sample_customer_token_answer settle_customer_samples)
  have flow: "initializeCustomer sample_config ?V (JStr ''user_abc'') (initial_world 0) =
     (JObj [(''success'', JBool True), (''customer_id'', JUndefined),
            (''app_user_id'', JStr ''user_abc''), (''access_token'', JStr ''cust-token-1''),
            (''token_expires_in'', JNum 3600), (''token_scope'', JStr ''customer.cust-1'')], ?w3)"
    by (simp add: initializeCustomer_def sample_first_token step2 cid step3
        initializeCustomer_result_def)
  show ?thesis
    unfolding direct flow cid
    by (simp add: scope_of_def token_request_def customer_request_def)
qed

text \<open>
  C4, as the code has it. \<open>createCustomer\<close> does not look into the vendor's answer: once
  the guard has left a token that is a string of legal header characters, a 2xx answer
  to the customer request whose body is a JSON object is returned as it is, with or
  without a customer identifier. In every run it sends at most one request that is not
  a token request, so nothing is retried. When it throws inside \<open>initializeCustomer\<close>,
  that workflow ends there and returns the failure object with the state the call left.
\<close>

theorem createCustomer_returns_response_unchecked:
  "(\<forall>u w1 s st data fs.
      ensure_token c v w = (Inr u, w1) \<and> apiAccessToken w1 = JStr s \<and>
      list_all valid_header_char s \<and>
      snd (v (sent w1) (customer_request c (JStr s) a)) = Responded st data (Some (JObj fs)) \<and>
      200 \<le> st \<and> st < 300 \<and> js_trim data \<noteq> [] \<longrightarrow>
      fst (createCustomer c v a w) = Inr (JObj fs)) \<and>
   (\<forall>res w'. createCustomer c v a w = (res, w') \<longrightarrow>
      length (filter (\<lambda>r. scope_of r = None) (new_requests w w')) \<le> 1) \<and>
   (\<forall>t w0 e w'. getApiAccessToken c v w0 = (Inr t, w) \<and> createCustomer c v a w = (Inl e, w') \<longrightarrow>
      initializeCustomer c v a w0 = (failure e, w'))"
proof (intro conjI allI impI)
  fix u w1 s st data fs
  assume h: "ensure_token c v w = (Inr u, w1) \<and> apiAccessToken w1 = JStr s \<and>
      list_all valid_header_char s \<and>
      snd (v (sent w1) (customer_request c (JStr s) a)) = Responded st data (Some (JObj fs)) \<and>
      200 \<le> st \<and> st < 300 \<and> js_trim data \<noteq> []"
  then show "fst (createCustomer c v a w) = Inr (JObj fs)"
    by (auto simp: createCustomer_def makeRequest_sends customer_request_headers settle_def
        js_trim_Nil after_logging_def split: option.splits)
next
  fix res w' assume "createCustomer c v a w = (res, w')"
  then have "perform c v (CreateCustomer a) w = (res, w')" by simp
  from perform_after_guard [OF this]
  obtain r1 w1 rs where g: "ensure_token c v w = (r1, w1)" "sent w' = sent w1 @ rs"
      "carries_token (apiAccessToken w1) rs"
    by blast
  from ensure_token_sent [OF g(1)] g(2) carries_token_unscoped [OF g(3)]
  show "length (filter (\<lambda>r. scope_of r = None) (new_requests w w')) \<le> 1"
    by (auto simp: new_requests_def scope_of_requests)
next
  fix t w0 e w'
  assume "getApiAccessToken c v w0 = (Inr t, w) \<and> createCustomer c v a w = (Inl e, w')"
  then show "initializeCustomer c v a w0 = (failure e, w')"
    by (simp add: initializeCustomer_def)
qed

text \<open>
  On the sample vendor: the answer without an identifier is returned, after one customer
  request; and a 401 from the customer endpoint ends \<open>initializeCustomer\<close> with the
  failure object.
\<close>

theorem createCustomer_returns_response_unchecked_witness:
  "fst (createCustomer sample_config
          (sample_vendor api_token_ok customer_without_id customer_token_ok)
          (JStr ''user_abc'') (initial_world 0))
     = Inr (JObj [(''app_user_id'', JStr ''user_abc'')]) \<and>
   length (filter (\<lambda>r. scope_of r = None)
     (new_requests (initial_world 0)
        (snd (createCustomer sample_config
                (sample_vendor api_token_ok customer_without_id customer_token_ok)
                (JStr ''user_abc'') (initial_world 0))))) \<le> 1 \<and>
   fst (initializeCustomer sample_config
          (sample_vendor api_token_ok unauthorized customer_token_ok)
          (JStr ''user_abc'') (initial_world 0))
     = failure (HttpError 401 (body_text unauthorized))"
proof -
  let ?V = "sample_vendor api_token_ok customer_without_id customer_token_ok"
  let ?U = "sample_vendor api_token_ok unauthorized customer_token_ok"
  let ?c = "customer_request sample_config (JStr ''api-token-1'') (JStr ''user_abc'')"
  let ?w1 = "\<lparr>apiAccessToken = JStr ''api-token-1'', apiTokenExpiry = JNum 3600100,
              clock = 100, sent = [token_request sample_config ''api'']\<rparr>"
  let ?w2 = "\<lparr>apiAccessToken = JStr ''api-token-1'', apiTokenExpiry = JNum 3600100,
              clock = 200, sent = [token_request sample_config ''api'', ?c]\<rparr>"
  have guard: "ensure_token sample_config ?V (initial_world 0) = (Inr (JStr ''api-token-1''), ?w1)"
    by (simp add: ensure_token_def token_needed_def initial_world_def
        sample_first_token [unfolded initial_world_def])
  have accepted: "ensure_token sample_config ?V (initial_world 0) = (Inr (JStr ''api-token-1''), ?w1) \<and>
      apiAccessToken ?w1 = JStr ''api-token-1'' \<and> list_all valid_header_char ''api-token-1'' \<and>
      snd (?V (sent ?w1) ?c) = Responded 200 (body_text customer_without_id)
          (Some (JObj [(''app_user_id'', JStr ''user_abc'')])) \<and>
      (200::int) \<le> 200 \<and> (200::int) < 300 \<and> js_trim (body_text customer_without_id) \<noteq> []"
  proof -
    have "customer_without_id = Responded 200 (body_text customer_without_id)
          (Some (JObj [(''app_user_id'', JStr ''user_abc'')]))"
      by (simp add: customer_without_id_def body_text_def)
    moreover have "js_trim (body_text customer_without_id) \<noteq> []"
      by (simp add: customer_without_id_def body_text_def js_trim_def is_space_def)
    moreover have "list_all valid_header_char ''api-token-1''"
      by (simp add: valid_header_char_def)
    moreover have "snd (?V (sent ?w1) ?c) = customer_without_id"
      by (simp add: sample_customer_answer)
    ultimately show ?thesis
      using guard by simp
  qed
  obtain res w' where run: "createCustomer sample_config ?V (JStr ''user_abc'') (initial_world 0)
      = (res, w')"
    by (cases "createCustomer sample_config ?V (JStr ''user_abc'') (initial_world 0)")
  have hs: "invalid_header (req_headers ?c) = None"
    by (simp add: customer_request_headers valid_header_char_def)
  have step2: "createCustomer sample_config ?U (JStr ''user_abc'') ?w1
                 = (Inl (HttpError 401 (body_text unauthorized)), ?w2)"
    by (simp add: createCustomer_def ensure_token_def token_needed_def js_ge_num
        makeRequest_sends [OF hs] sample_customer_answer settle_samples)
  have abort: "getApiAccessToken sample_config ?U (initial_world 0) = (Inr (JStr ''api-token-1''), ?w1) \<and>
      createCustomer sample_config ?U (JStr ''user_abc'') ?w1
        = (Inl (HttpError 401 (body_text unauthorized)), ?w2)"
    by (simp add: sample_first_token step2)
  note inst = createCustomer_returns_response_unchecked
    [where c = sample_config and v = ?V and a = "JStr ''user_abc''" and w = "initial_world 0"]
  note inst2 = createCustomer_returns_response_unchecked
    [where c = sample_config and v = ?U and a = "JStr ''user_abc''" and w = ?w1]
  note a1 = inst [THEN conjunct1, rule_format, OF accepted]
  note a2 = inst [THEN conjunct2, THEN conjunct1, rule_format, OF run]
  note a3 = inst2 [THEN conjunct2, THEN conjunct2, rule_format, OF abort]
  from a1 a2 a3 show ?thesis
    by (simp add: run)
qed

end
